theory Spec2Isabelle
  imports Main "HOL-Library.Sublist"
begin

section \<open>Values of the Python program\<close>

text \<open>
  A Python \<open>str\<close> is a sequence of Unicode code points, so it is modelled as a list of
  natural numbers; \<open>bytes\<close> (the content of a file) is a list of 8-bit characters.
  \<open>py\<close> turns an ASCII literal of the source into the \<open>str\<close> it denotes.
\<close>

type_synonym pystr = "nat list"

definition py :: "string \<Rightarrow> pystr" where
  "py s = map of_char s"

text \<open>
  A text that UTF-8 can encode: code points of a \<open>str\<close> (below 1114112), none of them a
  surrogate (U+D800 to U+DFFF).
\<close>

definition encodable :: "pystr \<Rightarrow> bool" where
  "encodable s = list_all (\<lambda>c. c < 1114112 \<and> \<not> (55296 \<le> c \<and> c < 57344)) s"

text \<open>
  Exceptions. Every exception the program meets is an instance of \<open>Exception\<close>. The
  classes told apart are \<open>ValueError\<close> (what the program raises itself),
  \<open>UnicodeEncodeError\<close> (what writing an unencodable text raises),
  \<open>subprocess.TimeoutExpired\<close> (which has its own \<open>except\<close> clause in the source), and
  all others. \<open>message\<close> is \<open>str(e)\<close>.
  \<open>exn_context\<close> is the exception that the program was handling when it raised this
  one (Python's \<open>__context__\<close>). The program never reads it; it is kept to tell where
  a failure came from: \<open>root_cause\<close> is the exception at the end of the chain, the one
  that a library raised or that the program raised outside any handler.
\<close>

datatype exn_kind = ValueError | UnicodeEncodeError | TimeoutExpired | OtherException

datatype exn = Exn (kind: exn_kind) (message: pystr) (exn_context: "exn option")

fun root_cause :: "exn \<Rightarrow> exn" where
  "root_cause (Exn k m None) = Exn k m None"
| "root_cause (Exn k m (Some c)) = root_cause c"

text \<open>
  An exception raised by a library call is given by its class and its message. The
  message is text that the library composes from its own words, from the operating
  system's error text and from the \<open>repr\<close> of file names, which escapes what cannot be
  displayed; it is modelled as a \<open>string\<close>, text that every output stream can write.
  \<open>lib\<close> turns the outcome of a library call into the outcome seen by the program.
\<close>

type_synonym lib_exn = "exn_kind \<times> string"

definition raised :: "lib_exn \<Rightarrow> exn" where
  "raised x = Exn (fst x) (py (snd x)) None"

definition lib :: "lib_exn + 'a \<Rightarrow> exn + 'a" where
  "lib r = (case r of Inl x \<Rightarrow> Inl (raised x) | Inr a \<Rightarrow> Inr a)"

text \<open>
  The result of \<open>subprocess.run(..., capture_output=True, text=True)\<close>. The captured
  error output is decoded by \<open>subprocess\<close>, strictly, so it is text that can be written
  again; it is a \<open>string\<close> like the messages of the libraries.
\<close>

record completed =
  returncode :: int
  stderr :: string

text \<open>
  What the program does to the outside world, in the order it does it: tests of
  \<open>os.path.exists\<close>, runs of \<open>[cmd, '--version']\<close> with their timeout, \<open>Image.open\<close>,
  the recognition call \<open>pytesseract.image_to_string\<close> (engine command, configuration),
  and, for saving, \<open>open(path, 'w')\<close> and the write of the encoded text. The lines
  that \<open>print\<close> writes to the standard output are not recorded as events; whether
  writing them fails is part of the model (see \<open>print_line\<close>).
\<close>

datatype event =
    PathExists pystr
  | RunVersion pystr nat
  | ImageOpen pystr
  | ImageToString pystr pystr
  | OpenWrite pystr
  | WriteBytes pystr string

text \<open>
  The host system and the libraries, as the program sees them. Each field gives the
  outcome of one library call; a call that can raise returns a sum with the exception
  (class and message) on the left. \<open>username\<close> is \<open>os.getenv('USERNAME')\<close>; \<open>py_repr\<close>
  is the builtin \<open>repr\<close> on \<open>str\<close>; \<open>image_repr\<close> is the \<open>repr\<close> of an image object (which
  is also its \<open>str\<close>); \<open>linesep\<close> is \<open>os.linesep\<close>; \<open>open_write\<close> is the outcome of
  opening a path for writing; \<open>write_bytes\<close> is the outcome of writing the encoded bytes
  (on failure, with how many bytes reached the file).
\<close>

record 'img env =
  username :: "pystr option"
  path_exists :: "pystr \<Rightarrow> bool"
  run_version :: "pystr \<Rightarrow> nat \<Rightarrow> lib_exn + completed"
  image_open :: "pystr \<Rightarrow> lib_exn + 'img"
  convert_L :: "'img \<Rightarrow> lib_exn + 'img"
  enhance_contrast :: "'img \<Rightarrow> nat \<Rightarrow> lib_exn + 'img"
  filter_sharpen :: "'img \<Rightarrow> lib_exn + 'img"
  image_to_string :: "pystr \<Rightarrow> 'img \<Rightarrow> pystr \<Rightarrow> lib_exn + pystr"
  image_repr :: "'img \<Rightarrow> string"
  py_repr :: "pystr \<Rightarrow> pystr"
  linesep :: pystr
  open_write :: "pystr \<Rightarrow> lib_exn option"
  write_bytes :: "pystr \<Rightarrow> string \<Rightarrow> (lib_exn \<times> nat) option"

section \<open>Control flow: results, exceptions and the trace of effects\<close>

text \<open>
  A computation yields an exception or a value, and the list of events it performed.
  \<open>and_then\<close> is sequencing (an exception skips the rest), \<open>try_except\<close> is
  \<open>try: ... except Exception as e: ...\<close>.
\<close>

type_synonym 'a comp = "(exn + 'a) \<times> event list"

definition returns :: "'a \<Rightarrow> 'a comp" where
  "returns a = (Inr a, [])"

definition raise_exn :: "exn \<Rightarrow> 'a comp" where
  "raise_exn e = (Inl e, [])"

definition effect :: "event \<Rightarrow> exn + 'a \<Rightarrow> 'a comp" where
  "effect ev r = (r, [ev])"

definition and_then :: "'a comp \<Rightarrow> ('a \<Rightarrow> 'b comp) \<Rightarrow> 'b comp" where
  "and_then m f =
     (case m of
        (Inl e, t) \<Rightarrow> (Inl e, t)
      | (Inr a, t) \<Rightarrow> (case f a of (r, t') \<Rightarrow> (r, t @ t')))"

definition try_except :: "'a comp \<Rightarrow> (exn \<Rightarrow> 'a comp) \<Rightarrow> 'a comp" where
  "try_except m h =
     (case m of
        (Inl e, t) \<Rightarrow> (case h e of (r, t') \<Rightarrow> (r, t @ t'))
      | (Inr a, t) \<Rightarrow> (Inr a, t))"

definition value_error :: "pystr \<Rightarrow> exn" where
  "value_error m = Exn ValueError m None"

subsection \<open>The UTF-8 codec's complaint\<close>

text \<open>
  \<open>decimal\<close> is \<open>str\<close> of a natural number. \<open>codec_message\<close> is the message of the
  \<open>UnicodeEncodeError\<close> that the strict UTF-8 encoder raises for a text it cannot
  encode: it names the first run of code points without encoding, by its one code point
  (escaped with four hexadecimal digits) and its position, or by its first and last
  position when the run is longer.
\<close>

function decimal :: "nat \<Rightarrow> pystr" where
  "decimal n = (if n < 10 then [48 + n] else decimal (n div 10) @ [48 + n mod 10])"
  by pat_completeness auto
termination
  by (relation "measure id") auto

declare decimal.simps [simp del]

definition hex_digit :: "nat \<Rightarrow> nat" where
  "hex_digit d = (if d < 10 then 48 + d else 87 + d)"

definition escape_u :: "nat \<Rightarrow> pystr" where
  "escape_u c =
     [92, 117, hex_digit (c div 4096 mod 16), hex_digit (c div 256 mod 16),
      hex_digit (c div 16 mod 16), hex_digit (c mod 16)]"

definition codec_message :: "pystr \<Rightarrow> pystr" where
  "codec_message s =
     (let ok = (\<lambda>c. c < 1114112 \<and> \<not> (55296 \<le> c \<and> c < 57344));
          start = length (takeWhile ok s);
          run = takeWhile (\<lambda>c. \<not> ok c) (drop start s)
      in [39] @ py ''utf-8'' @ [39] @ py '' codec can'' @ [39] @ py ''t encode '' @
         (case run of
            [c] \<Rightarrow>
              py ''character '' @ [39] @ escape_u c @ [39] @ py '' in position '' @ decimal start
          | _ \<Rightarrow>
              py ''characters in position '' @ decimal start @ py ''-'' @
              decimal (start + length run - 1)) @
         py '': surrogates not allowed'')"

definition unicode_encode_error :: "pystr \<Rightarrow> exn option \<Rightarrow> exn" where
  "unicode_encode_error s handled = Exn UnicodeEncodeError (codec_message s) handled"

subsection \<open>The debugging output\<close>

text \<open>
  \<open>print\<close> writes a line to the standard output, a text stream with the UTF-8 encoding
  and the strict error handling: the call raises \<open>UnicodeEncodeError\<close> exactly when
  the text holds a code point that has no encoding. \<open>print_line\<close> is a call outside any
  handler, \<open>print_handling e\<close> a call in the handler of \<open>e\<close>, which becomes the context of
  what the call raises.
\<close>

definition print_line :: "pystr \<Rightarrow> unit comp" where
  "print_line line =
     (if encodable line then returns ()
      else raise_exn (unicode_encode_error line None))"

definition print_handling :: "exn \<Rightarrow> pystr \<Rightarrow> unit comp" where
  "print_handling e line =
     (if encodable line then returns ()
      else raise_exn (unicode_encode_error line (Some e)))"

text \<open>What the formatted debugging lines hold: \<open>str\<close> of a flag, \<open>repr\<close> and type of a path.\<close>

definition str_of_bool :: "bool \<Rightarrow> pystr" where
  "str_of_bool b = (if b then py ''True'' else py ''False'')"

definition repr_of_path :: "'img env \<Rightarrow> pystr option \<Rightarrow> pystr" where
  "repr_of_path env image_path =
     (case image_path of None \<Rightarrow> py ''None'' | Some p \<Rightarrow> py_repr env p)"

definition type_of_path :: "pystr option \<Rightarrow> pystr" where
  "type_of_path image_path =
     (case image_path of
        None \<Rightarrow> py ''<class '' @ [39] @ py ''NoneType'' @ [39] @ py ''>''
      | Some p \<Rightarrow> py ''<class '' @ [39] @ py ''str'' @ [39] @ py ''>'')"

section \<open>String operations of the source\<close>

text \<open>
  \<open>str.lower\<close>, on the ASCII letters. Python also lowers cased letters beyond ASCII; the
  only code points beyond ASCII whose lower case contains an ASCII character are
  U+0130 (\<open>i\<close> followed by U+0307) and U+212A (\<open>k\<close>), and neither \<open>i\<close> nor \<open>k\<close> occurs
  in the suffixes the source tests, so the test below has the same result.
\<close>

definition lower_cp :: "nat \<Rightarrow> nat" where
  "lower_cp c = (if 65 \<le> c \<and> c \<le> 90 then c + 32 else c)"

definition lower :: "pystr \<Rightarrow> pystr" where
  "lower s = map lower_cp s"

definition endswith :: "pystr \<Rightarrow> pystr list \<Rightarrow> bool" where
  "endswith s sufs = (\<exists>suf \<in> set sufs. suffix suf s)"

text \<open>\<open>str.strip()\<close>: removes the code points for which \<open>str.isspace\<close> holds at both ends.\<close>

definition isspace_cp :: "nat \<Rightarrow> bool" where
  "isspace_cp c \<longleftrightarrow>
     (9 \<le> c \<and> c \<le> 13) \<or> (28 \<le> c \<and> c \<le> 32) \<or> c = 133 \<or> c = 160 \<or> c = 5760 \<or>
     (8192 \<le> c \<and> c \<le> 8202) \<or> c = 8232 \<or> c = 8233 \<or> c = 8239 \<or> c = 8287 \<or> c = 12288"

definition strip :: "pystr \<Rightarrow> pystr" where
  "strip s = rev (dropWhile isspace_cp (rev (dropWhile isspace_cp s)))"

section \<open>OCRProcessor\<close>

subsection \<open>The engine locator: \<open>OCRProcessor.__init__\<close>\<close>

text \<open>
  The candidate paths are raw strings with backslashes; \<open>win_path\<close> joins the components
  of such a path. The third candidate is built by \<open>str.format\<close> from
  \<open>os.getenv('USERNAME')\<close>, which formats \<open>None\<close> as the text \<open>None\<close>.
\<close>

fun win_path :: "pystr list \<Rightarrow> pystr" where
  "win_path [] = []"
| "win_path [c] = c"
| "win_path (c # cs) = c @ [92] @ win_path cs"

definition tesseract :: pystr where
  "tesseract = py ''tesseract''"

definition possible_paths :: "'img env \<Rightarrow> pystr option \<Rightarrow> pystr list" where
  "possible_paths env tesseract_path =
     (case tesseract_path of
        None \<Rightarrow> []
      | Some hint \<Rightarrow> if hint \<noteq> [] then [hint] else []) @
     [ win_path [py ''C:'', py ''Program Files'', py ''Tesseract-OCR'', py ''tesseract.exe''],
       win_path [py ''C:'', py ''Program Files (x86)'', py ''Tesseract-OCR'', py ''tesseract.exe''],
       win_path [py ''C:'', py ''Users'',
                 (case username env of None \<Rightarrow> py ''None'' | Some u \<Rightarrow> u),
                 py ''AppData'', py ''Local'', py ''Programs'', py ''Tesseract-OCR'',
                 py ''tesseract.exe''],
       tesseract ]"

text \<open>
  The engine reference is the attribute \<open>tesseract_cmd\<close> of the module
  \<open>pytesseract.pytesseract\<close>: it belongs to no object, the constructor assigns it and
  \<open>extract_text\<close> reads it. The state of the module is passed to the operations and
  returned by the one that changes it.
\<close>

record pytesseract =
  tesseract_cmd :: pystr

text \<open>
  One turn of the loop over the candidates, from the state of the loop (the flag
  \<open>tesseract_found\<close> and the module) to how the turn ends (\<open>break\<close>, the next turn, or
  an exception that leaves the constructor) and the new state. The whole turn is inside
  a \<open>try\<close>. \<open>os.path.exists\<close> does not raise on a \<open>str\<close>. When the test of the candidate
  succeeds, the engine reference and the flag are assigned first, then a line is
  printed, then the loop is left; if printing raises, the assignments stay and the
  handler runs. The handler (\<open>report_failure\<close>), also reached when the version run
  raises, prints a line and goes on with the next candidate.
\<close>

datatype flow = Break | Continue

definition report_failure :: "'img env \<Rightarrow> pystr \<Rightarrow> exn \<Rightarrow> flow comp" where
  "report_failure env path e =
     and_then
       (print_handling e (py ''DEBUG: Failed to test path '' @ path @ py '': '' @ message e))
       (\<lambda>_. returns Continue)"

definition test_path ::
  "'img env \<Rightarrow> pystr \<Rightarrow> bool \<times> pytesseract \<Rightarrow> flow comp \<times> (bool \<times> pytesseract)" where
  "test_path env path state =
     (if path = tesseract then
        (case run_version env tesseract 10 of
           Inl x \<Rightarrow>
             (and_then (effect (RunVersion tesseract 10) (Inr ())) (\<lambda>_.
                report_failure env path (raised x)),
              state)
         | Inr result \<Rightarrow>
             if returncode result = 0 then
               (and_then (effect (RunVersion tesseract 10) (Inr ())) (\<lambda>_.
                  try_except
                    (and_then (print_line (py ''DEBUG: Using Tesseract from PATH'')) (\<lambda>_.
                       returns Break))
                    (report_failure env path)),
                (True, (snd state)\<lparr>tesseract_cmd := tesseract\<rparr>))
             else (effect (RunVersion tesseract 10) (Inr Continue), state))
      else if path_exists env path then
        (and_then (effect (PathExists path) (Inr ())) (\<lambda>_.
           try_except
             (and_then (print_line (py ''DEBUG: Found Tesseract at: '' @ path)) (\<lambda>_.
                returns Break))
             (report_failure env path)),
         (True, (snd state)\<lparr>tesseract_cmd := path\<rparr>))
      else (effect (PathExists path) (Inr Continue), state))"

text \<open>
  The loop: it ends with the flag \<open>tesseract_found\<close>, or with the exception of a turn.
\<close>

fun test_paths ::
  "'img env \<Rightarrow> pystr list \<Rightarrow> bool \<times> pytesseract \<Rightarrow> bool comp \<times> pytesseract" where
  "test_paths env [] state = (returns (fst state), snd state)"
| "test_paths env (path # paths) state =
     (case test_path env path state of
        ((Inl e, t), state') \<Rightarrow> ((Inl e, t), snd state')
      | ((Inr Break, t), state') \<Rightarrow> ((Inr (fst state'), t), snd state')
      | ((Inr Continue, t), state') \<Rightarrow>
          (case test_paths env paths state' of
             ((r, t'), module') \<Rightarrow> ((r, t @ t'), module')))"

text \<open>\<open>str(possible_paths)\<close>: the \<open>repr\<close> of the elements, separated by comma and space.\<close>

fun join_comma :: "pystr list \<Rightarrow> pystr" where
  "join_comma [] = []"
| "join_comma [x] = x"
| "join_comma (x # xs) = x @ py '', '' @ join_comma xs"

definition str_of_list :: "'img env \<Rightarrow> pystr list \<Rightarrow> pystr" where
  "str_of_list env xs = py ''['' @ join_comma (map (py_repr env) xs) @ py '']''"

definition not_found_message :: "'img env \<Rightarrow> pystr list \<Rightarrow> pystr" where
  "not_found_message env paths =
     py ''Tesseract not found! Please install Tesseract-OCR from:'' @ [10] @
     py ''https://github.com/UB-Mannheim/tesseract/wiki'' @ [10] @
     py ''Tried paths: '' @ str_of_list env paths"

text \<open>The constructed object holds \<open>self.config\<close>.\<close>

record processor =
  config :: pystr

definition OCRProcessor_init ::
  "'img env \<Rightarrow> pytesseract \<Rightarrow> pystr option \<Rightarrow> processor comp \<times> pytesseract" where
  "OCRProcessor_init env module tesseract_path =
     (case test_paths env (possible_paths env tesseract_path) (False, module) of
        ((Inl e, t), module') \<Rightarrow> ((Inl e, t), module')
      | ((Inr tesseract_found, t), module') \<Rightarrow>
          if \<not> tesseract_found then
            ((Inl (value_error (not_found_message env (possible_paths env tesseract_path))), t),
             module')
          else ((Inr \<lparr>config = py ''--oem 3 --psm 6''\<rparr>, t), module'))"

subsection \<open>\<open>OCRProcessor.preprocess_image\<close>\<close>

text \<open>
  The path is \<open>None\<close> or a \<open>str\<close>. The library calls return image objects, never
  \<open>None\<close>. Every \<open>print\<close> of the source is a step of the model, those of the \<open>try\<close>
  body and the one of the handler, which comes before the handler's \<open>raise\<close>.
\<close>

definition preprocess_image :: "'img env \<Rightarrow> pystr option \<Rightarrow> 'img comp" where
  "preprocess_image env image_path =
     try_except
       (and_then
          (print_line
             (py ''DEBUG: preprocess_image called with: '' @ repr_of_path env image_path)) (\<lambda>_.
        case image_path of
          None \<Rightarrow> raise_exn (value_error (py ''Image path is None''))
        | Some p \<Rightarrow>
            and_then (effect (PathExists p) (Inr (path_exists env p))) (\<lambda>found.
              if \<not> found
              then raise_exn (value_error (py ''Image file does not exist: '' @ p))
              else
                and_then (print_line (py ''DEBUG: About to open image'')) (\<lambda>_.
                and_then (effect (ImageOpen p) (lib (image_open env p))) (\<lambda>img.
                and_then (print_line (py ''DEBUG: Opened image: '' @ py (image_repr env img))) (\<lambda>_.
                and_then (print_line (py ''DEBUG: Converting to grayscale'')) (\<lambda>_.
                and_then (lib (convert_L env img), []) (\<lambda>img.
                and_then (print_line (py ''DEBUG: Enhancing contrast'')) (\<lambda>_.
                and_then (lib (enhance_contrast env img 2), []) (\<lambda>img.
                and_then (print_line (py ''DEBUG: Applying sharpen filter'')) (\<lambda>_.
                and_then (lib (filter_sharpen env img), []) (\<lambda>img.
                and_then
                  (print_line
                     (py ''DEBUG: Final processed image: '' @ py (image_repr env img))) (\<lambda>_.
                  returns img)))))))))))))
       (\<lambda>e.
          and_then
            (print_handling e (py ''DEBUG: Exception in preprocess_image: '' @ message e)) (\<lambda>_.
          raise_exn (Exn ValueError (py ''Image processing failed: '' @ message e) (Some e))))"

subsection \<open>\<open>OCRProcessor.extract_text\<close>\<close>

text \<open>
  The test of the engine command before it is used (the inner \<open>try\<close> of
  \<open>extract_text\<close>). The command is a \<open>str\<close>. \<open>os.path.exists\<close> is evaluated first, the
  comparison with the bare name only when it is false. A timeout of the run has its
  own \<open>except\<close> clause, which comes first; a \<open>ValueError\<close> raised in the \<open>try\<close> body is
  caught by the second clause like any other exception. Nothing is printed here.
\<close>

definition test_tesseract :: "'img env \<Rightarrow> pystr \<Rightarrow> unit comp" where
  "test_tesseract env cmd =
     try_except
       (and_then (effect (PathExists cmd) (Inr (path_exists env cmd))) (\<lambda>found.
          if found \<or> cmd = tesseract then
            and_then (effect (RunVersion cmd 5) (lib (run_version env cmd 5))) (\<lambda>test_result.
              if returncode test_result \<noteq> 0
              then raise_exn
                     (value_error (py ''Tesseract test failed: '' @ py (stderr test_result)))
              else returns ())
          else raise_exn (value_error (py ''Tesseract executable not found at: '' @ cmd))))
       (\<lambda>e. if kind e = TimeoutExpired
            then raise_exn (Exn ValueError (py ''Tesseract test timed out'') (Some e))
            else raise_exn (Exn ValueError (py ''Tesseract validation failed: '' @ message e) (Some e)))"

text \<open>
  The image that is recognised: the preprocessed one, or the file opened as it is.
\<close>

definition load_image :: "'img env \<Rightarrow> pystr \<Rightarrow> bool \<Rightarrow> 'img comp" where
  "load_image env p preprocess =
     (if preprocess then
        and_then (print_line (py ''DEBUG: About to preprocess image'')) (\<lambda>_.
        and_then (preprocess_image env (Some p)) (\<lambda>img.
        and_then (print_line (py ''DEBUG: Preprocessed image = '' @ py (image_repr env img))) (\<lambda>_.
          returns img)))
      else
        and_then (print_line (py ''DEBUG: Opening image without preprocessing'')) (\<lambda>_.
        and_then (effect (PathExists p) (Inr (path_exists env p))) (\<lambda>found.
          if \<not> found
          then raise_exn (value_error (py ''Image file does not exist: '' @ p))
          else
            and_then (effect (ImageOpen p) (lib (image_open env p))) (\<lambda>img.
            and_then (print_line (py ''DEBUG: Opened image = '' @ py (image_repr env img))) (\<lambda>_.
              returns img)))))"

text \<open>
  What \<open>extract_text\<close> does before it tests the engine: the first debugging lines, the
  checks of the path, the loading of the image, and the two lines that announce the
  recognition, the second of which shows the engine reference.
\<close>

definition prepare_image ::
  "'img env \<Rightarrow> pytesseract \<Rightarrow> pystr option \<Rightarrow> bool \<Rightarrow> 'img comp" where
  "prepare_image env module image_path preprocess =
     and_then (print_line (py ''DEBUG: image_path = '' @ repr_of_path env image_path)) (\<lambda>_.
     and_then (print_line (py ''DEBUG: image_path type = '' @ type_of_path image_path)) (\<lambda>_.
     and_then (print_line (py ''DEBUG: preprocess = '' @ str_of_bool preprocess)) (\<lambda>_.
       case image_path of
         None \<Rightarrow> raise_exn (value_error (py ''Image path is None''))
       | Some p \<Rightarrow>
           if p = [] then raise_exn (value_error (py ''Image path is empty string''))
           else
             and_then (load_image env p preprocess) (\<lambda>img.
             and_then
               (print_line (py ''DEBUG: About to call pytesseract.image_to_string'')) (\<lambda>_.
             and_then
               (print_line (py ''DEBUG: Tesseract command: '' @ tesseract_cmd module)) (\<lambda>_.
               returns img))))))"

definition extract_text ::
  "'img env \<Rightarrow> pytesseract \<Rightarrow> processor \<Rightarrow> pystr option \<Rightarrow> bool \<Rightarrow> pystr comp" where
  "extract_text env module self image_path preprocess =
     try_except
       (and_then (prepare_image env module image_path preprocess) (\<lambda>img.
        and_then (test_tesseract env (tesseract_cmd module)) (\<lambda>_.
        and_then
          (effect (ImageToString (tesseract_cmd module) (config self))
             (lib (image_to_string env (tesseract_cmd module) img (config self)))) (\<lambda>extracted.
        and_then
          (print_line (py ''DEBUG: Extracted text length = '' @ decimal (length extracted))) (\<lambda>_.
          returns (strip extracted))))))
       (\<lambda>e.
          and_then
            (print_handling e (py ''DEBUG: Exception in extract_text: '' @ message e)) (\<lambda>_.
          raise_exn (Exn ValueError (py ''Text extraction failed: '' @ message e) (Some e))))"

section \<open>HandwritingToTextBackend\<close>

text \<open>
  \<open>HandwritingToTextBackend.__init__\<close> constructs the processor and keeps it as
  \<open>self.ocr\<close>, so the backend is the processor. \<open>process_image\<close> prints nothing. Its
  format gate:
\<close>

definition supported_suffixes :: "pystr list" where
  "supported_suffixes = [py ''.png'', py ''.jpg'', py ''.jpeg'', py ''.bmp'']"

definition format_gate :: "pystr \<Rightarrow> bool" where
  "format_gate image_path = endswith (lower image_path) supported_suffixes"

definition process_image ::
  "'img env \<Rightarrow> pytesseract \<Rightarrow> processor \<Rightarrow> pystr option \<Rightarrow> (bool \<times> pystr) comp" where
  "process_image env module ocr image_path =
     (case image_path of
        None \<Rightarrow> returns (False, py ''No image path provided'')
      | Some p \<Rightarrow>
          if p = [] then returns (False, py ''No image path provided'')
          else
            and_then (effect (PathExists p) (Inr (path_exists env p))) (\<lambda>found.
              if \<not> found then returns (False, py ''File not found'')
              else if \<not> format_gate p then returns (False, py ''Unsupported file format'')
              else
                try_except
                  (and_then (extract_text env module ocr (Some p) True) (\<lambda>extracted_text.
                     returns (True, extracted_text)))
                  (\<lambda>e. returns (False, message e))))"

subsection \<open>\<open>HandwritingToTextBackend.save_text\<close>\<close>

text \<open>
  \<open>open(output_path, 'w', encoding='utf-8')\<close> opens a text stream with the default
  newline handling: \<open>write\<close> replaces every line feed by \<open>os.linesep\<close> and encodes the
  result as UTF-8, strictly. A code point is encoded in one to four bytes; the
  surrogates U+D800 to U+DFFF have no encoding, and a \<open>str\<close> has no code point beyond
  U+10FFFF.
\<close>

definition translate_newlines :: "pystr \<Rightarrow> pystr \<Rightarrow> pystr" where
  "translate_newlines sep s = concat (map (\<lambda>c. if c = 10 then sep else [c]) s)"

definition utf8_encode_cp :: "nat \<Rightarrow> nat list option" where
  "utf8_encode_cp c =
     (if c < 128 then Some [c]
      else if c < 2048 then Some [192 + c div 64, 128 + c mod 64]
      else if c < 65536 then
        (if 55296 \<le> c \<and> c < 57344 then None
         else Some [224 + c div 4096, 128 + (c div 64) mod 64, 128 + c mod 64])
      else if c < 1114112 then
        Some [240 + c div 262144, 128 + (c div 4096) mod 64, 128 + (c div 64) mod 64,
              128 + c mod 64]
      else None)"

fun utf8_encode :: "pystr \<Rightarrow> string option" where
  "utf8_encode [] = Some []"
| "utf8_encode (c # cs) =
     (case utf8_encode_cp c of
        None \<Rightarrow> None
      | Some bs \<Rightarrow>
          (case utf8_encode cs of
             None \<Rightarrow> None
           | Some rest \<Rightarrow> Some (map char_of bs @ rest)))"

text \<open>
  The files of the host: the bytes stored at each path. \<open>write_file\<close> is the \<open>with\<close>
  block: opening for writing creates or empties the file; the text is encoded when it
  is written, and an encoding failure leaves the file empty; a failing write leaves the
  bytes that reached the file.
\<close>

type_synonym files = "pystr \<Rightarrow> string option"

definition write_file :: "'img env \<Rightarrow> files \<Rightarrow> pystr \<Rightarrow> pystr \<Rightarrow> unit comp \<times> files" where
  "write_file env fs path text =
     (case open_write env path of
        Some e \<Rightarrow> (effect (OpenWrite path) (Inl (raised e)), fs)
      | None \<Rightarrow>
          (case utf8_encode (translate_newlines (linesep env) text) of
             None \<Rightarrow>
               (and_then (effect (OpenWrite path) (Inr ())) (\<lambda>_.
                  raise_exn
                    (unicode_encode_error (translate_newlines (linesep env) text) None)),
                fs(path \<mapsto> []))
           | Some bs \<Rightarrow>
               (case write_bytes env path bs of
                  Some (e, n) \<Rightarrow>
                    (and_then (effect (OpenWrite path) (Inr ())) (\<lambda>_.
                       effect (WriteBytes path bs) (Inl (raised e))),
                     fs(path \<mapsto> take n bs))
                | None \<Rightarrow>
                    (and_then (effect (OpenWrite path) (Inr ())) (\<lambda>_.
                       effect (WriteBytes path bs) (Inr ())),
                     fs(path \<mapsto> bs)))))"

definition save_text_body ::
  "'img env \<Rightarrow> files \<Rightarrow> pystr option \<Rightarrow> pystr option \<Rightarrow> (bool \<times> pystr) comp \<times> files" where
  "save_text_body env fs text output_path =
     (case text of
        None \<Rightarrow> (returns (False, py ''No text to save''), fs)
      | Some t \<Rightarrow>
          if t = [] then (returns (False, py ''No text to save''), fs)
          else
            (case output_path of
               None \<Rightarrow> (returns (False, py ''No output path provided''), fs)
             | Some p \<Rightarrow>
                 if p = [] then (returns (False, py ''No output path provided''), fs)
                 else
                   (case write_file env fs p t of
                      (written, fs') \<Rightarrow>
                        (and_then written (\<lambda>_. returns (True, py ''Text saved successfully'')),
                         fs'))))"

definition save_text ::
  "'img env \<Rightarrow> files \<Rightarrow> pystr option \<Rightarrow> pystr option \<Rightarrow> (bool \<times> pystr) comp \<times> files" where
  "save_text env fs text output_path =
     (case save_text_body env fs text output_path of
        (body, fs') \<Rightarrow>
          (try_except body (\<lambda>e. returns (False, py ''Error saving file: '' @ message e)), fs'))"

subsection \<open>Reading a saved file back\<close>








section \<open>The notions of the specification\<close>

text \<open>
  The extension of a path is what follows its last dot; a supported extension is one of
  \<open>png\<close>, \<open>jpg\<close>, \<open>jpeg\<close>, \<open>bmp\<close> in any mix of upper and lower case.
\<close>

definition extension :: "pystr \<Rightarrow> pystr option" where
  "extension p =
     (if 46 \<in> set p then Some (rev (takeWhile (\<lambda>c. c \<noteq> 46) (rev p))) else None)"

definition supported_extension :: "pystr \<Rightarrow> bool" where
  "supported_extension p =
     (case extension p of
        None \<Rightarrow> False
      | Some e \<Rightarrow> lower e \<in> {py ''png'', py ''jpg'', py ''jpeg'', py ''bmp''})"

text \<open>
  The test a candidate of the engine locator has to pass: the bare command name must run
  its version query with exit status 0 within the timeout of 10, a path must exist.
  \<open>probe\<close> is the one event that testing a candidate performs.
\<close>

definition accepts :: "'img env \<Rightarrow> pystr \<Rightarrow> bool" where
  "accepts env c =
     (if c = tesseract then
        (case run_version env tesseract 10 of
           Inl e \<Rightarrow> False
         | Inr result \<Rightarrow> returncode result = 0)
      else path_exists env c)"

definition probe :: "pystr \<Rightarrow> event" where
  "probe c = (if c = tesseract then RunVersion tesseract 10 else PathExists c)"

text \<open>
  The engine reference is runnable: it exists or is the bare command name, and its
  version query, run with the timeout of 5, exits with status 0.
\<close>

definition engine_runnable :: "'img env \<Rightarrow> pystr \<Rightarrow> bool" where
  "engine_runnable env cmd =
     ((path_exists env cmd \<or> cmd = tesseract) \<and>
      (case run_version env cmd 5 of
         Inl e \<Rightarrow> False
       | Inr result \<Rightarrow> returncode result = 0))"

text \<open>
  The message of the exception a computation ends with, if it ends with one; and the
  recognition calls among the events.
\<close>

definition failure_message :: "'a comp \<Rightarrow> pystr option" where
  "failure_message c = (case fst c of Inl e \<Rightarrow> Some (message e) | Inr a \<Rightarrow> None)"

definition is_recognition :: "event \<Rightarrow> bool" where
  "is_recognition ev = (case ev of ImageToString cmd cfg \<Rightarrow> True | _ \<Rightarrow> False)"

definition quiet :: "'a comp \<Rightarrow> bool" where
  "quiet c = list_all (\<lambda>ev. \<not> is_recognition ev) (snd c)"

text \<open>
  \<open>fails_with P c\<close>: if the computation ends with an exception, the exception has the
  property \<open>P\<close>. \<open>carries e\<close>: the message of the exception can be printed and ends with
  the message of its root cause.
  \<open>reraised e\<close>: the exception that leaves \<open>extract_text\<close> when its handler catches \<open>e\<close>.
\<close>

definition fails_with :: "(exn \<Rightarrow> bool) \<Rightarrow> 'a comp \<Rightarrow> bool" where
  "fails_with P c = (case fst c of Inl e \<Rightarrow> P e | Inr a \<Rightarrow> True)"

definition carries :: "exn \<Rightarrow> bool" where
  "carries e = (encodable (message e) \<and> suffix (message (root_cause e)) (message e))"

definition reraised :: "exn \<Rightarrow> exn" where
  "reraised e =
     (if encodable (message e)
      then Exn ValueError (py ''Text extraction failed: '' @ message e) (Some e)
      else unicode_encode_error (py ''DEBUG: Exception in extract_text: '' @ message e) (Some e))"

section \<open>Concrete hosts\<close>

text \<open>
  \<open>host\<close>: a POSIX machine with the engine on the search path and at \<open>/opt/tess\<close>, an
  image \<open>scan.PNG\<close> and a text file \<open>notes.txt\<close>; images are numbered, each filter
  giving a new number; its \<open>repr\<close> puts a text between quotes and escapes the
  surrogates in it. \<open>bare_host\<close>: the same machine with no file at all and no engine.
  \<open>slow_host\<close>: the version query does not finish within its timeout.
  \<open>odd_host\<close>: the only file is an engine whose name holds a byte that is no UTF-8, which
  Python shows as the lone surrogate U+DCFF. \<open>odd_path\<close> is that name, \<open>odd_image\<close> the
  name of an image with such a byte.
\<close>

definition escape_cp :: "nat \<Rightarrow> pystr" where
  "escape_cp c = (if 55296 \<le> c \<and> c < 57344 then escape_u c else [c])"

definition host :: "nat env" where
  "host =
     \<lparr> username = Some (py ''ann''),
       path_exists = (\<lambda>p. p = py ''scan.PNG'' \<or> p = py ''notes.txt'' \<or> p = py ''/opt/tess''),
       run_version = (\<lambda>cmd t. Inr \<lparr>returncode = 0, stderr = []\<rparr>),
       image_open = (\<lambda>p. Inr 0),
       convert_L = (\<lambda>img. Inr (img + 1)),
       enhance_contrast = (\<lambda>img factor. Inr (img + factor)),
       filter_sharpen = (\<lambda>img. Inr (img + 1)),
       image_to_string = (\<lambda>cmd img cfg. Inr (py '' TEST '')),
       image_repr = (\<lambda>img. ''<PIL.Image.Image>''),
       py_repr = (\<lambda>s. [39] @ concat (map escape_cp s) @ [39]),
       linesep = [10],
       open_write = (\<lambda>p. None),
       write_bytes = (\<lambda>p bs. None) \<rparr>"

definition bare_host :: "nat env" where
  "bare_host =
     host \<lparr> path_exists := (\<lambda>p. False),
            run_version := (\<lambda>cmd t. Inl (OtherException, ''No such file or directory'')) \<rparr>"

definition slow_host :: "nat env" where
  "slow_host =
     host \<lparr> run_version := (\<lambda>cmd t. Inl (TimeoutExpired, ''Command timed out after 5 seconds'')) \<rparr>"




text \<open>The module with the bare command name as engine reference, and a processor.\<close>

definition on_path :: pytesseract where
  "on_path = \<lparr>tesseract_cmd = tesseract\<rparr>"

definition ocr_on_path :: processor where
  "ocr_on_path = \<lparr>config = py ''--oem 3 --psm 6''\<rparr>"

section \<open>Sequencing and printing\<close>

lemma and_then_returns: "and_then (returns a) f = f a"
  by (simp add: and_then_def returns_def split: prod.splits)

lemma and_then_raise: "and_then (raise_exn e) f = raise_exn e"
  by (simp add: and_then_def raise_exn_def)

lemma and_then_effect:
  "and_then (effect ev (Inr a)) f = (case f a of (r, t) \<Rightarrow> (r, ev # t))"
  "and_then (effect ev (Inl e)) f = (Inl e, [ev])"
  by (simp_all add: and_then_def effect_def)

lemma and_then_pure:
  "and_then (Inr a, []) f = f a"
  "and_then (Inl e, []) f = (Inl e, [])"
  by (simp_all add: and_then_def split: prod.splits)

lemma of_char_less: "of_char c < (256::nat)"
proof -
  have "(of_char c :: nat) mod 256 = of_char c" by simp
  then show ?thesis by (metis mod_less_divisor zero_less_numeral)
qed

lemma encodable_py: "encodable (py s)"
proof -
  have "c < 1114112 \<and> \<not> (55296 \<le> c \<and> c < 57344)" if h: "c \<in> of_char ` set s" for c :: nat
  proof -
    obtain d :: char where "c = of_char d" using h by blast
    then have "c < 256" by (simp add: of_char_less)
    then show ?thesis by simp
  qed
  then show ?thesis by (simp add: encodable_def py_def list_all_iff)
qed

lemma encodable_append: "encodable (a @ b) \<longleftrightarrow> encodable a \<and> encodable b"
  by (simp add: encodable_def)

lemma encodable_Cons: "encodable (c # s) \<longleftrightarrow> c < 1114112 \<and> \<not> (55296 \<le> c \<and> c < 57344) \<and> encodable s"
  by (simp add: encodable_def)

lemma encodable_Nil: "encodable []"
  by (simp add: encodable_def)

lemma encodable_decimal: "encodable (decimal n)"
proof (induction n rule: decimal.induct)
  case (1 n)
  show ?case
  proof (cases "n < 10")
    case True
    then have "decimal n = [48 + n]" by (simp add: decimal.simps)
    then show ?thesis using True by (simp add: encodable_def)
  next
    case False
    then have d: "decimal n = decimal (n div 10) @ [48 + n mod 10]"
      by (subst decimal.simps) simp
    have "encodable (decimal (n div 10))" using 1 False by simp
    moreover have "n mod 10 < 10" by simp
    then have "48 + n mod 10 < 1114112 \<and> \<not> 55296 \<le> 48 + n mod 10" by linarith
    then have "encodable [48 + n mod 10]" unfolding encodable_def by simp
    ultimately show ?thesis by (simp add: d encodable_append)
  qed
qed

lemma encodable_str_of_bool: "encodable (str_of_bool b)"
  by (simp add: str_of_bool_def encodable_py)

lemma encodable_type_of_path: "encodable (type_of_path ip)"
  by (simp add: type_of_path_def encodable_py encodable_append encodable_Cons encodable_Nil
        split: option.splits)

lemma print_line_ok: "encodable line \<Longrightarrow> print_line line = returns ()"
  by (simp add: print_line_def)

lemma print_handling_ok: "encodable line \<Longrightarrow> print_handling e line = returns ()"
  by (simp add: print_handling_def)

lemma print_line_fails:
  "\<not> encodable line \<Longrightarrow>
     print_line line = raise_exn (unicode_encode_error line None)"
  by (simp add: print_line_def)

lemma print_handling_fails:
  "\<not> encodable line \<Longrightarrow>
     print_handling e line = raise_exn (unicode_encode_error line (Some e))"
  by (simp add: print_handling_def)

lemma hex_digit_less: "d < 16 \<Longrightarrow> hex_digit d < 128"
  by (simp add: hex_digit_def)

lemma encodable_escape_u: "encodable (escape_u c)"
proof -
  have "hex_digit (c div 4096 mod 16) < 128" "hex_digit (c div 256 mod 16) < 128"
    "hex_digit (c div 16 mod 16) < 128" "hex_digit (c mod 16) < 128"
    by (simp_all add: hex_digit_less)
  then show ?thesis by (simp add: escape_u_def encodable_def)
qed

lemma encodable_codec_message: "encodable (codec_message s)"
  by (simp add: codec_message_def Let_def encodable_py encodable_append encodable_decimal
        encodable_escape_u encodable_Cons encodable_Nil split: list.splits)

lemma codec_message_starts: "\<exists>m. codec_message s = 39 # m"
  by (simp add: codec_message_def Let_def)

lemma unicode_encode_error_sel:
  "message (unicode_encode_error s h) = codec_message s"
  "kind (unicode_encode_error s h) = UnicodeEncodeError"
  "exn_context (unicode_encode_error s h) = h"
  by (simp_all add: unicode_encode_error_def)

lemmas printable =
  encodable_py encodable_append encodable_decimal encodable_str_of_bool encodable_type_of_path
  encodable_codec_message

lemmas steps = and_then_returns and_then_raise and_then_effect and_then_pure

section \<open>The format gate\<close>

text \<open>
  The suffix test of the source and the extension of the specification agree: the
  lowered path ends with a dot and one of the four names exactly when what follows its
  last dot is one of them, in any case.
\<close>

lemma lower_cp_dot: "lower_cp c = 46 \<longleftrightarrow> c = 46"
  by (auto simp: lower_cp_def)

lemma dot_suffix_iff:
  assumes "46 \<notin> set (e::nat list)"
  shows "suffix (46 # e) q \<longleftrightarrow> 46 \<in> set q \<and> rev (takeWhile (\<lambda>c. c \<noteq> 46) (rev q)) = e"
proof
  assume "suffix (46 # e) q"
  then obtain xs where q: "q = xs @ 46 # e" by (auto simp: suffix_def)
  have "takeWhile (\<lambda>c. c \<noteq> 46) (rev e @ 46 # rev xs) = rev e"
    using assms by (auto simp: takeWhile_tail)
  then show "46 \<in> set q \<and> rev (takeWhile (\<lambda>c. c \<noteq> 46) (rev q)) = e"
    by (simp add: q)
next
  assume a: "46 \<in> set q \<and> rev (takeWhile (\<lambda>c. c \<noteq> 46) (rev q)) = e"
  let ?P = "\<lambda>c::nat. c \<noteq> 46"
  have "dropWhile ?P (rev q) \<noteq> []" using a by (auto simp: dropWhile_eq_Nil_conv)
  then obtain y ys where d: "dropWhile ?P (rev q) = y # ys" by (cases "dropWhile ?P (rev q)") auto
  have "y = 46" using hd_dropWhile[of ?P "rev q"] d by auto
  have "rev q = takeWhile ?P (rev q) @ dropWhile ?P (rev q)" by simp
  then have "rev q = rev e @ 46 # ys" using a d \<open>y = 46\<close> by (metis rev_rev_ident)
  then have "q = rev ys @ 46 # e" by (metis rev.simps(2) rev_append rev_rev_ident append_assoc append_Cons append_Nil)
  then show "suffix (46 # e) q" by (auto simp: suffix_def)
qed

lemma lower_extension:
  "rev (takeWhile (\<lambda>c. c \<noteq> 46) (rev (lower p))) = lower (rev (takeWhile (\<lambda>c. c \<noteq> 46) (rev p)))"
  by (simp add: lower_def rev_map takeWhile_map comp_def lower_cp_dot)

lemma dot_in_lower: "46 \<in> set (lower p) \<longleftrightarrow> 46 \<in> set p"
  by (auto simp: lower_def lower_cp_dot)

lemma format_gate_extension: "format_gate p = supported_extension p"
proof -
  have e: "46 \<notin> set (py ''png'')" "46 \<notin> set (py ''jpg'')" "46 \<notin> set (py ''jpeg'')" "46 \<notin> set (py ''bmp'')"
    by (simp_all add: py_def)
  have s: "py ''.png'' = 46 # py ''png''" "py ''.jpg'' = 46 # py ''jpg''"
     "py ''.jpeg'' = 46 # py ''jpeg''" "py ''.bmp'' = 46 # py ''bmp''"
    by (simp_all add: py_def)
  show ?thesis
    unfolding format_gate_def supported_extension_def extension_def endswith_def supported_suffixes_def
    by (auto simp: s dot_suffix_iff[OF e(1)] dot_suffix_iff[OF e(2)] dot_suffix_iff[OF e(3)]
          dot_suffix_iff[OF e(4)] lower_extension dot_in_lower)
qed

section \<open>The checks of \<open>process_image\<close>\<close>

lemma process_image_found:
  assumes "p \<noteq> []" and "path_exists env p"
  shows "process_image env md ocr (Some p) =
           (if format_gate p then
              (case extract_text env md ocr (Some p) True of
                 (Inl e, t) \<Rightarrow> (Inr (False, message e), PathExists p # t)
               | (Inr extracted, t) \<Rightarrow> (Inr (True, extracted), PathExists p # t))
            else (Inr (False, py ''Unsupported file format''), [PathExists p]))"
  using assms
  by (simp add: process_image_def and_then_def try_except_def effect_def returns_def
        split: prod.splits sum.splits)

lemma process_image_missing:
  assumes "p \<noteq> []" and "\<not> path_exists env p"
  shows "process_image env md ocr (Some p) =
           (Inr (False, py ''File not found''), [PathExists p])"
  using assms by (simp add: process_image_def and_then_def effect_def returns_def)

lemma process_image_empty:
  "process_image env md ocr None = (Inr (False, py ''No image path provided''), [])"
  "process_image env md ocr (Some []) = (Inr (False, py ''No image path provided''), [])"
  by (simp_all add: process_image_def returns_def)

lemma ext_scan: "supported_extension (py ''scan.PNG'')"
  by (simp add: supported_extension_def extension_def lower_def lower_cp_def py_def)

lemma ext_notes: "\<not> supported_extension (py ''notes.txt'')"
  by (simp add: supported_extension_def extension_def lower_def lower_cp_def py_def)

lemma ext_nope: "\<not> supported_extension (py ''nope.txt'')"
  by (simp add: supported_extension_def extension_def lower_def lower_cp_def py_def)

lemma repr_scan: "encodable (py_repr host (py ''scan.PNG''))"
  by (simp add: host_def escape_cp_def py_def encodable_def)

lemma encodable_tesseract: "encodable tesseract"
  by (simp add: tesseract_def encodable_py)

lemma extract_scan:
  "extract_text host on_path ocr_on_path (Some (py ''scan.PNG'')) True =
     (Inr (py ''TEST''),
      [PathExists (py ''scan.PNG''), ImageOpen (py ''scan.PNG''), PathExists tesseract,
       RunVersion tesseract 5, ImageToString tesseract (py ''--oem 3 --psm 6'')])"
proof -
  have ne: "py ''scan.PNG'' \<noteq> []" by (simp add: py_def)
  have ex: "path_exists host (py ''scan.PNG'')" by (simp add: host_def)
  have h: "image_open host = (\<lambda>p. Inr 0)" "convert_L host = (\<lambda>img. Inr (img + 1))"
    "enhance_contrast host = (\<lambda>img factor. Inr (img + factor))"
    "filter_sharpen host = (\<lambda>img. Inr (img + 1))"
    "run_version host = (\<lambda>cmd t. Inr \<lparr>returncode = 0, stderr = []\<rparr>)"
    "image_to_string host = (\<lambda>cmd img cfg. Inr (py '' TEST ''))"
    by (simp_all add: host_def)
  have pre: "preprocess_image host (Some (py ''scan.PNG'')) =
      (Inr 4, [PathExists (py ''scan.PNG''), ImageOpen (py ''scan.PNG'')])"
    using repr_scan ex
    by (simp add: preprocess_image_def repr_of_path_def print_line_ok printable steps h lib_def
          try_except_def returns_def)
  have load: "load_image host (py ''scan.PNG'') True =
      (Inr 4, [PathExists (py ''scan.PNG''), ImageOpen (py ''scan.PNG'')])"
    by (simp add: load_image_def pre print_line_ok printable steps) (simp add: and_then_def returns_def)
  have prep: "prepare_image host on_path (Some (py ''scan.PNG'')) True =
      (Inr 4, [PathExists (py ''scan.PNG''), ImageOpen (py ''scan.PNG'')])"
    using repr_scan ne encodable_tesseract
    by (simp add: prepare_image_def repr_of_path_def load print_line_ok printable steps on_path_def)
       (simp add: and_then_def returns_def)
  have test: "test_tesseract host tesseract = (Inr (), [PathExists tesseract, RunVersion tesseract 5])"
    by (simp add: test_tesseract_def steps h lib_def try_except_def returns_def)
  have st: "strip (py '' TEST '') = py ''TEST''"
    by (simp add: strip_def isspace_cp_def py_def)
  have g: "tesseract_cmd on_path = tesseract" "config ocr_on_path = py ''--oem 3 --psm 6''"
    by (simp_all add: on_path_def ocr_on_path_def)
  show ?thesis
    by (simp add: extract_text_def prep test h lib_def g st
          print_line_ok printable steps try_except_def and_then_def effect_def returns_def)
qed




text \<open>
  Claim C6. For a path that is not empty and does not exist, \<open>process_image\<close> returns
  \<open>(False, "File not found")\<close>, and the only thing it does is the existence test: the
  file is never opened and the engine is neither tested nor invoked.
\<close>

theorem process_image_file_not_found:
  assumes "p \<noteq> []" and "\<not> path_exists env p"
  shows "process_image env md ocr (Some p) =
           (Inr (False, py ''File not found''), [PathExists p]) \<and>
         ImageOpen p \<notin> set (snd (process_image env md ocr (Some p))) \<and>
         list_all (\<lambda>ev. \<not> is_recognition ev) (snd (process_image env md ocr (Some p)))"
  using process_image_missing[OF assms] by (simp add: is_recognition_def)

theorem process_image_file_not_found_witness:
  "py ''nope.png'' \<noteq> [] \<and> \<not> path_exists host (py ''nope.png'') \<and>
   process_image host on_path ocr_on_path (Some (py ''nope.png'')) =
     (Inr (False, py ''File not found''), [PathExists (py ''nope.png'')])"
proof -
  have a: "py ''nope.png'' \<noteq> []" by (simp add: py_def)
  have b: "\<not> path_exists host (py ''nope.png'')" by (simp add: host_def py_def)
  show ?thesis
    using process_image_file_not_found[OF a b, of on_path ocr_on_path] a b by blast
qed

lemma extraction_message_differs:
  "py ''Text extraction failed: '' @ m \<noteq> py ''Unsupported file format''"
  by (simp add: py_def)

lemma codec_message_differs: "codec_message s \<noteq> py ''Unsupported file format''"
  using codec_message_starts[of s] by (auto simp: py_def)

lemma extract_text_handler:
  "extract_text env md self ip pre =
     (case and_then (prepare_image env md ip pre) (\<lambda>img.
             and_then (test_tesseract env (tesseract_cmd md)) (\<lambda>_.
             and_then
               (effect (ImageToString (tesseract_cmd md) (config self))
                  (lib (image_to_string env (tesseract_cmd md) img (config self)))) (\<lambda>extracted.
             and_then
               (print_line (py ''DEBUG: Extracted text length = '' @ decimal (length extracted))) (\<lambda>_.
               returns (strip extracted))))) of
        (Inl e, t) \<Rightarrow>
          (Inl (if encodable (message e)
                then Exn ValueError (py ''Text extraction failed: '' @ message e) (Some e)
                else unicode_encode_error (py ''DEBUG: Exception in extract_text: '' @ message e)
                       (Some e)),
           t)
      | (Inr extracted, t) \<Rightarrow> (Inr extracted, t))"
  by (simp add: extract_text_def try_except_def print_handling_def steps raise_exn_def
        encodable_py encodable_append split: prod.splits sum.splits)

lemma extract_text_failure_message:
  assumes "extract_text env md self ip pre = (Inl e, t)"
  shows "(\<exists>m. message e = py ''Text extraction failed: '' @ m) \<or>
         (\<exists>line. message e = codec_message line)"
  using assms
  by (auto simp: extract_text_handler unicode_encode_error_def split: prod.splits sum.splits if_splits)

text \<open>
  Claim C10. The checks of \<open>process_image\<close> run in the order emptiness, existence,
  extension. An empty path is reported as missing before anything is tested. A non-empty
  path that does not exist is reported as \<open>"File not found"\<close> whatever its extension,
  never as \<open>"Unsupported file format"\<close>; the latter is reported only for a path that
  exists and fails the format gate.
\<close>

theorem process_image_check_order:
  "process_image env md ocr (Some []) = (Inr (False, py ''No image path provided''), []) \<and>
   (p \<noteq> [] \<and> \<not> path_exists env p \<longrightarrow>
      fst (process_image env md ocr (Some p)) = Inr (False, py ''File not found'') \<and>
      fst (process_image env md ocr (Some p)) \<noteq> Inr (False, py ''Unsupported file format'')) \<and>
   (fst (process_image env md ocr (Some p)) = Inr (False, py ''Unsupported file format'') \<longrightarrow>
      p \<noteq> [] \<and> path_exists env p \<and> \<not> format_gate p)"
proof -
  have n: "py ''File not found'' \<noteq> py ''Unsupported file format''"
    "py ''No image path provided'' \<noteq> py ''Unsupported file format''"
    by (simp_all add: py_def)
  have 1: "p \<noteq> [] \<and> \<not> path_exists env p \<longrightarrow>
      fst (process_image env md ocr (Some p)) = Inr (False, py ''File not found'') \<and>
      fst (process_image env md ocr (Some p)) \<noteq> Inr (False, py ''Unsupported file format'')"
    using n by (auto simp: process_image_missing)
  have 2: "fst (process_image env md ocr (Some p)) = Inr (False, py ''Unsupported file format'') \<longrightarrow>
      p \<noteq> [] \<and> path_exists env p \<and> \<not> format_gate p"
  proof (cases "p \<noteq> [] \<and> path_exists env p")
    case True
    then have f: "p \<noteq> []" "path_exists env p" by simp_all
    show ?thesis
    proof (cases "format_gate p")
      case False
      then show ?thesis using f by simp
    next
      case True
      obtain r t where x: "extract_text env md ocr (Some p) True = (r, t)"
        by (cases "extract_text env md ocr (Some p) True")
      show ?thesis
      proof (cases r)
        case (Inl e)
        have pi: "fst (process_image env md ocr (Some p)) = Inr (False, message e)"
          using True Inl x by (simp add: process_image_found[OF f])
        have "message e \<noteq> py ''Unsupported file format''"
          using extract_text_failure_message[of env md ocr "Some p" True e t] x Inl
            extraction_message_differs codec_message_differs
          by auto
        then show ?thesis using pi by simp
      next
        case (Inr extracted)
        then show ?thesis using True x by (simp add: process_image_found[OF f])
      qed
    qed
  next
    case False
    show ?thesis
    proof (cases "p = []")
      case True
      then show ?thesis using n by (simp add: process_image_empty)
    next
      case ne: False
      then have "\<not> path_exists env p" using False by simp
      then show ?thesis using n ne by (simp add: process_image_missing)
    qed
  qed
  show ?thesis using 1 2 process_image_empty(2)[of env md ocr] by blast
qed

theorem process_image_check_order_witness:
  "\<not> format_gate (py ''nope.txt'') \<and> py ''nope.txt'' \<noteq> [] \<and> \<not> path_exists host (py ''nope.txt'') \<and>
   fst (process_image host on_path ocr_on_path (Some (py ''nope.txt''))) = Inr (False, py ''File not found'') \<and>
   fst (process_image host on_path ocr_on_path (Some (py ''notes.txt''))) = Inr (False, py ''Unsupported file format'') \<and>
   path_exists host (py ''notes.txt'')"
proof -
  have a: "py ''nope.txt'' \<noteq> []" by (simp add: py_def)
  have b: "\<not> path_exists host (py ''nope.txt'')" by (simp add: host_def py_def)
  have c: "\<not> format_gate (py ''nope.txt'')"
    by (simp add: format_gate_extension ext_nope)
  have e: "py ''notes.txt'' \<noteq> []" "path_exists host (py ''notes.txt'')"
    by (simp_all add: host_def py_def)
  have d: "fst (process_image host on_path ocr_on_path (Some (py ''notes.txt''))) = Inr (False, py ''Unsupported file format'')"
    by (simp add: process_image_found[OF e] format_gate_extension ext_notes)
  have w1: "fst (process_image host on_path ocr_on_path (Some (py ''nope.txt''))) = Inr (False, py ''File not found'')"
    using process_image_check_order[of host on_path ocr_on_path "py ''nope.txt''"] a b by blast
  have w2: "path_exists host (py ''notes.txt'')"
    using process_image_check_order[of host on_path ocr_on_path "py ''notes.txt''"] d by blast
  show ?thesis using a b c d w1 w2 by blast
qed

section \<open>Saving\<close>

lemma save_text_no_text:
  assumes "text = None \<or> text = Some []"
  shows "save_text env fs text output_path = ((Inr (False, py ''No text to save''), []), fs)"
  using assms by (auto simp: save_text_def save_text_body_def try_except_def returns_def)

lemma save_text_no_path:
  assumes "t \<noteq> []" and "output_path = None \<or> output_path = Some []"
  shows "save_text env fs (Some t) output_path =
           ((Inr (False, py ''No output path provided''), []), fs)"
  using assms by (auto simp: save_text_def save_text_body_def try_except_def returns_def)

lemma write_file_cases:
  "write_file env fs p t =
     (case open_write env p of
        Some e \<Rightarrow> ((Inl (raised e), [OpenWrite p]), fs)
      | None \<Rightarrow>
          (case utf8_encode (translate_newlines (linesep env) t) of
             None \<Rightarrow>
               ((Inl (unicode_encode_error (translate_newlines (linesep env) t) None),
                 [OpenWrite p]),
                       fs(p \<mapsto> []))
           | Some bs \<Rightarrow>
               (case write_bytes env p bs of
                  Some (e, n) \<Rightarrow>
                    ((Inl (raised e), [OpenWrite p, WriteBytes p bs]), fs(p \<mapsto> take n bs))
                | None \<Rightarrow> ((Inr (), [OpenWrite p, WriteBytes p bs]), fs(p \<mapsto> bs)))))"
  by (simp add: write_file_def and_then_def effect_def raise_exn_def
        split: option.splits prod.splits)

lemma save_text_write:
  assumes "t \<noteq> []" and "p \<noteq> []"
  shows "save_text env fs (Some t) (Some p) =
           (case write_file env fs p t of
              ((Inl e, tr), fs') \<Rightarrow> ((Inr (False, py ''Error saving file: '' @ message e), tr), fs')
            | ((Inr u, tr), fs') \<Rightarrow> ((Inr (True, py ''Text saved successfully''), tr), fs'))"
  using assms
  by (simp add: save_text_def save_text_body_def try_except_def and_then_def returns_def
        split: prod.splits sum.splits)

lemma write_file_opens: "\<exists>tr. snd (fst (write_file env fs p t)) = OpenWrite p # tr"
  by (simp add: write_file_cases split: option.splits prod.splits)

text \<open>
  Claim C7. \<open>save_text\<close> rejects a text that is \<open>None\<close> or empty, and, for a text that is
  not, an output path that is \<open>None\<close> or empty: each time it returns \<open>False\<close> with a
  message, performs no event and leaves the files as they are. So whenever it performs
  an event or changes a file, both arguments are non-empty; and when both are, it does
  open the output path for writing.
\<close>

theorem save_text_rejects_empty:
  "(text = None \<or> text = Some [] \<longrightarrow>
      save_text env fs text output_path = ((Inr (False, py ''No text to save''), []), fs)) \<and>
   (t \<noteq> [] \<and> (output_path = None \<or> output_path = Some []) \<longrightarrow>
      save_text env fs (Some t) output_path =
        ((Inr (False, py ''No output path provided''), []), fs)) \<and>
   (snd (fst (save_text env fs text output_path)) \<noteq> [] \<or>
    snd (save_text env fs text output_path) \<noteq> fs \<longrightarrow>
      (\<exists>t' p'. text = Some t' \<and> t' \<noteq> [] \<and> output_path = Some p' \<and> p' \<noteq> [])) \<and>
   (t \<noteq> [] \<and> p \<noteq> [] \<longrightarrow>
      (\<exists>tr. snd (fst (save_text env fs (Some t) (Some p))) = OpenWrite p # tr))"
proof -
  have 3: "snd (fst (save_text env fs text output_path)) \<noteq> [] \<or>
      snd (save_text env fs text output_path) \<noteq> fs \<longrightarrow>
      (\<exists>t' p'. text = Some t' \<and> t' \<noteq> [] \<and> output_path = Some p' \<and> p' \<noteq> [])"
  proof (cases "text = None \<or> text = Some []")
    case True
    then show ?thesis by (simp add: save_text_no_text)
  next
    case False
    then obtain t' where t': "text = Some t'" "t' \<noteq> []" by auto
    show ?thesis
    proof (cases "output_path = None \<or> output_path = Some []")
      case True
      then show ?thesis using t' by (simp add: save_text_no_path)
    next
      case False
      then show ?thesis using t' by auto
    qed
  qed
  have 4: "t \<noteq> [] \<and> p \<noteq> [] \<longrightarrow>
      (\<exists>tr. snd (fst (save_text env fs (Some t) (Some p))) = OpenWrite p # tr)"
    using write_file_opens[of env fs p t]
    by (auto simp: save_text_write split: prod.splits sum.splits)
  show ?thesis using 3 4 by (simp add: save_text_no_text save_text_no_path)
qed

theorem save_text_rejects_empty_witness:
  "save_text host Map.empty (Some []) (Some (py ''out.txt'')) =
     ((Inr (False, py ''No text to save''), []), Map.empty) \<and>
   save_text host Map.empty (Some (py ''TEST'')) (Some []) =
     ((Inr (False, py ''No output path provided''), []), Map.empty) \<and>
   py ''TEST'' \<noteq> [] \<and> py ''out.txt'' \<noteq> [] \<and>
   (\<exists>tr. snd (fst (save_text host Map.empty (Some (py ''TEST'')) (Some (py ''out.txt'')))) =
      OpenWrite (py ''out.txt'') # tr)"
proof -
  have a: "py ''TEST'' \<noteq> []" "py ''out.txt'' \<noteq> []" by (simp_all add: py_def)
  show ?thesis
    using save_text_rejects_empty[of "Some []" host Map.empty "Some (py ''out.txt'')" "py ''TEST''" "py ''out.txt''"]
      save_text_rejects_empty[of "Some (py ''TEST'')" host Map.empty "Some []" "py ''TEST''" "py ''out.txt''"]
      a
    by simp
qed

section \<open>Totality of the orchestration\<close>

lemma process_image_returns:
  "\<exists>b m. fst (process_image env md ocr image_path) = Inr (b, m)"
proof (cases image_path)
  case None
  then show ?thesis by (auto simp: process_image_empty)
next
  case (Some p)
  show ?thesis
  proof (cases "p = []")
    case True
    then show ?thesis using Some by (auto simp: process_image_empty)
  next
    case ne: False
    show ?thesis
    proof (cases "path_exists env p")
      case False
      then show ?thesis using Some ne by (auto simp: process_image_missing)
    next
      case True
      obtain r tr where x: "extract_text env md ocr (Some p) True = (r, tr)"
        by (cases "extract_text env md ocr (Some p) True")
      show ?thesis
        using Some x by (cases r) (auto simp: process_image_found[OF ne True])
    qed
  qed
qed

lemma process_image_extraction_failure:
  assumes "p \<noteq> []" and "path_exists env p" and "format_gate p"
    and "fst (extract_text env md ocr (Some p) True) = Inl e"
  shows "fst (process_image env md ocr (Some p)) = Inr (False, message e)"
proof -
  obtain tr where "extract_text env md ocr (Some p) True = (Inl e, tr)"
    using assms(4) by (cases "extract_text env md ocr (Some p) True") simp
  then show ?thesis using assms(3) by (simp add: process_image_found[OF assms(1,2)])
qed

lemma save_text_returns:
  "\<exists>b m. fst (fst (save_text env fs text output_path)) = Inr (b, m)"
proof (cases "text = None \<or> text = Some []")
  case True
  then show ?thesis by (auto simp: save_text_no_text)
next
  case False
  then obtain t where t: "text = Some t" "t \<noteq> []" by auto
  show ?thesis
  proof (cases "output_path = None \<or> output_path = Some []")
    case True
    then show ?thesis using t by (auto simp: save_text_no_path)
  next
    case False
    then obtain p where p: "output_path = Some p" "p \<noteq> []" by auto
    obtain r tr fs' where w: "write_file env fs p t = ((r, tr), fs')"
      by (cases "write_file env fs p t") auto
    show ?thesis
      using t p w by (cases r) (auto simp: save_text_write)
  qed
qed

lemma save_text_write_failure:
  assumes "t \<noteq> []" and "p \<noteq> []" and "fst (fst (write_file env fs p t)) = Inl e"
  shows "fst (fst (save_text env fs (Some t) (Some p))) =
           Inr (False, py ''Error saving file: '' @ message e)"
proof -
  obtain tr fs' where "write_file env fs p t = ((Inl e, tr), fs')"
    using assms(3) by (cases "write_file env fs p t") auto
  then show ?thesis by (simp add: save_text_write[OF assms(1,2)])
qed

text \<open>
  Claim C4. \<open>process_image\<close> (on \<open>None\<close> or any \<open>str\<close>) and \<open>save_text\<close> (on \<open>None\<close> or any
  \<open>str\<close> for each argument) never end with an exception: each returns a pair of a flag
  and a message or text. A failure of the extraction behind the checks of
  \<open>process_image\<close> becomes \<open>False\<close> with the message of the exception, and a failure of
  the write of \<open>save_text\<close> becomes \<open>False\<close> with \<open>"Error saving file: "\<close> and the message
  of the exception.
\<close>

theorem orchestration_total:
  "(\<exists>b m. fst (process_image env md ocr image_path) = Inr (b, m)) \<and>
   (\<exists>b m. fst (fst (save_text env fs text output_path)) = Inr (b, m)) \<and>
   (p \<noteq> [] \<and> path_exists env p \<and> format_gate p \<and>
    fst (extract_text env md ocr (Some p) True) = Inl e \<longrightarrow>
      fst (process_image env md ocr (Some p)) = Inr (False, message e)) \<and>
   (t \<noteq> [] \<and> q \<noteq> [] \<and> fst (fst (write_file env fs q t)) = Inl e' \<longrightarrow>
      fst (fst (save_text env fs (Some t) (Some q))) =
        Inr (False, py ''Error saving file: '' @ message e'))"
  using process_image_returns[of env md ocr image_path]
    save_text_returns[of env fs "text" output_path]
    process_image_extraction_failure[of p env md ocr e]
    save_text_write_failure[of t q env fs "e'"]
  by blast

lemma codec_message_surrogate:
  "codec_message [55296] =
     [39] @ py ''utf-8'' @ [39] @ py '' codec can'' @ [39] @ py ''t encode character '' @ [39, 92] @
     py ''ud800'' @ [39] @ py '' in position 0: surrogates not allowed''"
  by (simp add: codec_message_def Let_def escape_u_def hex_digit_def decimal.simps[of 0] py_def)

lemma surrogate_not_encodable: "utf8_encode (translate_newlines [10] [55296]) = None"
  by (simp add: translate_newlines_def utf8_encode_cp_def)

lemma write_surrogate:
  "fst (fst (write_file host Map.empty (py ''out.txt'') [55296])) =
     Inl (unicode_encode_error [55296] None)"
  using surrogate_not_encodable
  by (simp add: write_file_cases host_def translate_newlines_def)

lemma load_scan_on:
  assumes "path_exists env (py ''scan.PNG'')" and "image_open env = (\<lambda>p. Inr 0)"
    and "convert_L env = (\<lambda>img. Inr (img + 1))"
    and "enhance_contrast env = (\<lambda>img factor. Inr (img + factor))"
    and "filter_sharpen env = (\<lambda>img. Inr (img + 1))"
    and "encodable (py_repr env (py ''scan.PNG''))"
  shows "load_image env (py ''scan.PNG'') True =
     (Inr (4::nat), [PathExists (py ''scan.PNG''), ImageOpen (py ''scan.PNG'')])"
proof -
  have pre: "preprocess_image env (Some (py ''scan.PNG'')) =
      (Inr 4, [PathExists (py ''scan.PNG''), ImageOpen (py ''scan.PNG'')])"
    using assms(1,6)
    by (simp add: preprocess_image_def repr_of_path_def print_line_ok printable steps assms(2-5)
          lib_def try_except_def returns_def)
  show ?thesis
    by (simp add: load_image_def pre print_line_ok printable steps) (simp add: and_then_def returns_def)
qed

lemma prepare_scan_slow:
  "prepare_image slow_host on_path (Some (py ''scan.PNG'')) True =
     (Inr 4, [PathExists (py ''scan.PNG''), ImageOpen (py ''scan.PNG'')])"
proof -
  have ne: "py ''scan.PNG'' \<noteq> []" by (simp add: py_def)
  have r: "py_repr slow_host (py ''scan.PNG'') = py_repr host (py ''scan.PNG'')"
    by (simp add: slow_host_def)
  have l: "load_image slow_host (py ''scan.PNG'') True =
     (Inr 4, [PathExists (py ''scan.PNG''), ImageOpen (py ''scan.PNG'')])"
    using repr_scan by (intro load_scan_on) (simp_all add: slow_host_def host_def)
  show ?thesis
    using repr_scan ne encodable_tesseract
    by (simp add: prepare_image_def repr_of_path_def r l print_line_ok printable steps on_path_def)
       (simp add: and_then_def returns_def)
qed

lemma extract_slow:
  "fst (extract_text slow_host on_path ocr_on_path (Some (py ''scan.PNG'')) True) =
     Inl (Exn ValueError (py ''Text extraction failed: Tesseract test timed out'')
            (Some (Exn ValueError (py ''Tesseract test timed out'')
                     (Some (Exn TimeoutExpired (py ''Command timed out after 5 seconds'') None)))))"
proof -
  have g: "tesseract_cmd on_path = tesseract" by (simp add: on_path_def)
  have test: "test_tesseract slow_host tesseract =
      (Inl (Exn ValueError (py ''Tesseract test timed out'')
              (Some (Exn TimeoutExpired (py ''Command timed out after 5 seconds'') None))),
       [PathExists tesseract, RunVersion tesseract 5])"
    by (simp add: test_tesseract_def steps lib_def raised_def try_except_def raise_exn_def
          slow_host_def)
  have m: "py ''Text extraction failed: '' @ py ''Tesseract test timed out'' =
      py ''Text extraction failed: Tesseract test timed out''"
    by (simp add: py_def)
  show ?thesis
    by (simp add: extract_text_handler prepare_scan_slow g test and_then_def encodable_py m)
qed

theorem orchestration_total_witness:
  "fst (process_image slow_host on_path ocr_on_path (Some (py ''scan.PNG''))) =
     Inr (False, py ''Text extraction failed: Tesseract test timed out'') \<and>
   fst (fst (save_text host Map.empty (Some [55296]) (Some (py ''out.txt'')))) =
     Inr (False,
          py ''Error saving file: '' @ [39] @ py ''utf-8'' @ [39] @ py '' codec can'' @ [39] @
          py ''t encode character '' @ [39, 92] @ py ''ud800'' @ [39] @
          py '' in position 0: surrogates not allowed'')"
proof -
  have a: "py ''scan.PNG'' \<noteq> []" "path_exists slow_host (py ''scan.PNG'')"
    "format_gate (py ''scan.PNG'')" "py ''out.txt'' \<noteq> []" "[55296::nat] \<noteq> []"
    by (simp_all add: slow_host_def host_def format_gate_extension ext_scan) (simp_all add: py_def)
  have 1: "fst (process_image slow_host on_path ocr_on_path (Some (py ''scan.PNG''))) =
      Inr (False, message (Exn ValueError (py ''Text extraction failed: Tesseract test timed out'')
            (Some (Exn ValueError (py ''Tesseract test timed out'')
                     (Some (Exn TimeoutExpired (py ''Command timed out after 5 seconds'') None))))))"
    using orchestration_total[where env = slow_host and md = on_path and ocr = ocr_on_path
        and p = "py ''scan.PNG''"]
      a extract_slow by blast
  have 2: "fst (fst (save_text host Map.empty (Some [55296]) (Some (py ''out.txt'')))) =
      Inr (False, py ''Error saving file: '' @ message (unicode_encode_error [55296] None))"
    using orchestration_total[where env = host and fs = Map.empty and t = "[55296]"
        and q = "py ''out.txt''"]
      a write_surrogate by blast
  show ?thesis using 1 2 by (simp add: unicode_encode_error_def codec_message_surrogate)
qed

section \<open>The engine locator\<close>

lemma probe_event: "probe c = (if c = tesseract then RunVersion tesseract 10 else PathExists c)"
  by (simp add: probe_def)

text \<open>
  One turn of the loop, by what the candidate is: one that fails its test, one that
  passes it and can be printed, one that passes it and cannot be printed.
\<close>

lemma test_path_rejected:
  assumes "\<not> accepts env c"
  shows "test_path env c st = ((Inr Continue, [probe c]), st)"
proof (cases "c = tesseract")
  case True
  show ?thesis
  proof (cases "run_version env tesseract 10")
    case (Inl x)
    have "encodable (py ''DEBUG: Failed to test path '' @ tesseract @ py '': '' @ message (raised x))"
      by (simp add: printable encodable_tesseract raised_def)
    then show ?thesis using True Inl
      by (simp add: test_path_def report_failure_def print_handling_ok steps probe_def returns_def)
  next
    case (Inr result)
    then show ?thesis using True assms
      by (simp add: test_path_def accepts_def effect_def probe_def)
  qed
next
  case False
  then show ?thesis using assms
    by (simp add: test_path_def accepts_def effect_def probe_def)
qed

lemma test_path_accepted:
  assumes "accepts env c" and "encodable c"
  shows "test_path env c st = ((Inr Break, [probe c]), (True, (snd st)\<lparr>tesseract_cmd := c\<rparr>))"
proof (cases "c = tesseract")
  case True
  then obtain result where "run_version env tesseract 10 = Inr result" "returncode result = 0"
    using assms(1) by (auto simp: accepts_def split: sum.splits)
  then show ?thesis using True
    by (simp add: test_path_def print_line_ok printable steps try_except_def returns_def probe_def)
next
  case False
  then have "path_exists env c" using assms(1) by (simp add: accepts_def)
  then show ?thesis using False assms(2)
    by (simp add: test_path_def print_line_ok printable steps try_except_def returns_def probe_def)
qed

lemma test_path_unprintable:
  assumes "accepts env c" and "\<not> encodable c"
  shows "test_path env c st =
           ((Inl (unicode_encode_error
                    (py ''DEBUG: Failed to test path '' @ c @ py '': '' @
                     codec_message (py ''DEBUG: Found Tesseract at: '' @ c))
                    (Some (unicode_encode_error (py ''DEBUG: Found Tesseract at: '' @ c) None))),
             [probe c]),
            (True, (snd st)\<lparr>tesseract_cmd := c\<rparr>))"
proof -
  have nt: "c \<noteq> tesseract" using assms(2) encodable_tesseract by auto
  then have ex: "path_exists env c" using assms(1) by (simp add: accepts_def)
  have 1: "print_line (py ''DEBUG: Found Tesseract at: '' @ c) =
      raise_exn (unicode_encode_error (py ''DEBUG: Found Tesseract at: '' @ c) None)"
    using assms(2) by (simp add: print_line_fails printable)
  have 2: "print_handling e (py ''DEBUG: Failed to test path '' @ c @ py '': '' @ m) =
      raise_exn (unicode_encode_error
                   (py ''DEBUG: Failed to test path '' @ c @ py '': '' @ m) (Some e))" for e m
    using assms(2) by (simp add: print_handling_fails printable)
  show ?thesis using nt ex
    by (simp add: test_path_def 1 2 report_failure_def steps try_except_def raise_exn_def
          probe_def unicode_encode_error_sel)
qed

lemma test_paths_rejected:
  "list_all (\<lambda>c. \<not> accepts env c) xs \<Longrightarrow>
     test_paths env xs st = ((Inr (fst st), map probe xs), snd st)"
  by (induction xs) (simp_all add: test_path_rejected returns_def)

lemma test_paths_first:
  assumes "list_all (\<lambda>c. \<not> accepts env c) xs" and "accepts env c" and "encodable c"
  shows "test_paths env (xs @ c # ys) st =
           ((Inr True, map probe (xs @ [c])), (snd st)\<lparr>tesseract_cmd := c\<rparr>)"
  using assms(1)
  by (induction xs) (simp_all add: test_path_rejected test_path_accepted[OF assms(2,3)])

lemma test_paths_unprintable:
  assumes "list_all (\<lambda>c. \<not> accepts env c) xs" and "accepts env c" and "\<not> encodable c"
  shows "test_paths env (xs @ c # ys) st =
           ((Inl (unicode_encode_error
                    (py ''DEBUG: Failed to test path '' @ c @ py '': '' @
                     codec_message (py ''DEBUG: Found Tesseract at: '' @ c))
                    (Some (unicode_encode_error (py ''DEBUG: Found Tesseract at: '' @ c) None))),
             map probe (xs @ [c])),
            (snd st)\<lparr>tesseract_cmd := c\<rparr>)"
  using assms(1)
  by (induction xs) (simp_all add: test_path_rejected test_path_unprintable[OF assms(2,3)])

lemma first_accepted:
  assumes "\<not> list_all (\<lambda>c. \<not> accepts env c) cs"
  obtains xs c ys where "cs = xs @ c # ys" and "list_all (\<lambda>c. \<not> accepts env c) xs"
    and "accepts env c"
proof -
  have "\<exists>c \<in> set cs. accepts env c" using assms by (simp add: list_all_iff)
  then obtain xs c ys where "cs = xs @ c # ys" "accepts env c" "\<forall>x \<in> set xs. \<not> accepts env x"
    using split_list_first_prop[of cs "accepts env"] by blast
  then show ?thesis using that by (simp add: list_all_iff)
qed

lemma possible_paths_hint:
  "hint \<noteq> [] \<Longrightarrow> possible_paths env (Some hint) = hint # possible_paths env None"
  by (simp add: possible_paths_def)

lemma well_known_shape:
  "\<exists>w1 w2 w3. possible_paths env None = [w1, w2, w3, tesseract] \<and>
     w1 \<noteq> tesseract \<and> w2 \<noteq> tesseract \<and> w3 \<noteq> tesseract"
  by (simp add: possible_paths_def tesseract_def py_def)

lemma init_accepted:
  assumes "possible_paths env tesseract_path = xs @ c # ys"
    and "list_all (\<lambda>x. \<not> accepts env x) xs" and "accepts env c" and "encodable c"
  shows "OCRProcessor_init env md tesseract_path =
           ((Inr \<lparr>config = py ''--oem 3 --psm 6''\<rparr>, map probe (xs @ [c])),
            md\<lparr>tesseract_cmd := c\<rparr>)"
  using test_paths_first[OF assms(2,3,4), of ys "(False, md)"]
  by (simp add: OCRProcessor_init_def assms(1))

lemma init_unprintable:
  assumes "possible_paths env tesseract_path = xs @ c # ys"
    and "list_all (\<lambda>x. \<not> accepts env x) xs" and "accepts env c" and "\<not> encodable c"
  shows "OCRProcessor_init env md tesseract_path =
           ((Inl (unicode_encode_error
                    (py ''DEBUG: Failed to test path '' @ c @ py '': '' @
                     codec_message (py ''DEBUG: Found Tesseract at: '' @ c))
                    (Some (unicode_encode_error (py ''DEBUG: Found Tesseract at: '' @ c) None))),
             map probe (xs @ [c])),
            md\<lparr>tesseract_cmd := c\<rparr>)"
  using test_paths_unprintable[OF assms(2,3,4), of ys "(False, md)"]
  by (simp add: OCRProcessor_init_def assms(1))

text \<open>
  The locator on candidates that can be printed. The candidates are the hint, when one is
  given (a non-empty \<open>str\<close>), then the three install locations, which are paths, then the
  bare command name. They are tested in that order: when the candidates before \<open>c\<close> all
  fail their test and \<open>c\<close> passes its own (the version query within the timeout of 10
  for the bare name, existence for a path), the engine reference becomes \<open>c\<close>, and the
  tests performed are exactly those of the candidates up to \<open>c\<close>, one each, in order: no
  candidate after \<open>c\<close> is tested. The constructor returns the processor when the line it
  prints about \<open>c\<close> can be written to the standard output.
\<close>

lemma engine_locator_first_accepted:
  "(hint \<noteq> [] \<longrightarrow> possible_paths env (Some hint) = hint # possible_paths env None) \<and>
   (\<exists>w1 w2 w3. possible_paths env None = [w1, w2, w3, tesseract] \<and>
      w1 \<noteq> tesseract \<and> w2 \<noteq> tesseract \<and> w3 \<noteq> tesseract) \<and>
   (possible_paths env tesseract_path = xs @ c # ys \<and>
    list_all (\<lambda>x. \<not> accepts env x) xs \<and> accepts env c \<longrightarrow>
      snd (OCRProcessor_init env md tesseract_path) = md\<lparr>tesseract_cmd := c\<rparr> \<and>
      snd (fst (OCRProcessor_init env md tesseract_path)) = map probe (xs @ [c]) \<and>
      (encodable c \<longrightarrow>
         fst (fst (OCRProcessor_init env md tesseract_path)) =
           Inr \<lparr>config = py ''--oem 3 --psm 6''\<rparr>))"
proof -
  have "snd (OCRProcessor_init env md tesseract_path) = md\<lparr>tesseract_cmd := c\<rparr> \<and>
      snd (fst (OCRProcessor_init env md tesseract_path)) = map probe (xs @ [c]) \<and>
      (encodable c \<longrightarrow>
         fst (fst (OCRProcessor_init env md tesseract_path)) =
           Inr \<lparr>config = py ''--oem 3 --psm 6''\<rparr>)"
    if h: "possible_paths env tesseract_path = xs @ c # ys"
      "list_all (\<lambda>x. \<not> accepts env x) xs" "accepts env c"
  proof (cases "encodable c")
    case True
    then show ?thesis using init_accepted[OF h True, of md] by simp
  next
    case False
    then show ?thesis using init_unprintable[OF h False, of md] by simp
  qed
  then show ?thesis
    using possible_paths_hint[of hint env] well_known_shape[of env] by blast
qed


lemma sublist_behind: "sublist x ys \<Longrightarrow> sublist x (ps @ ys)"
  by (simp add: sublist_append)

lemma sublist_before: "sublist x ys \<Longrightarrow> sublist x (ys @ ss)"
  by (simp add: sublist_append)

lemma sublist_join_comma: "x \<in> set xs \<Longrightarrow> sublist x (join_comma xs)"
proof (induction xs rule: join_comma.induct)
  case 1
  then show ?case by simp
next
  case (2 y)
  then show ?case by simp
next
  case (3 y z zs)
  show ?case
  proof (cases "x = y")
    case True
    then show ?thesis by (simp add: sublist_append_rightI)
  next
    case False
    then have "sublist x (join_comma (z # zs))" using 3 by simp
    then show ?thesis unfolding join_comma.simps by (intro sublist_behind)
  qed
qed

lemma message_enumerates:
  "list_all (\<lambda>c. sublist (py_repr env c) (not_found_message env xs)) xs"
proof -
  have "sublist (py_repr env c) (not_found_message env xs)" if "c \<in> set xs" for c
  proof -
    have "sublist (py_repr env c) (join_comma (map (py_repr env) xs))"
      using that by (simp add: sublist_join_comma)
    then show ?thesis
      unfolding not_found_message_def str_of_list_def
      by (intro sublist_behind sublist_before)
  qed
  then show ?thesis by (simp add: list_all_iff)
qed

lemma init_rejected:
  assumes "list_all (\<lambda>c. \<not> accepts env c) (possible_paths env tesseract_path)"
  shows "OCRProcessor_init env md tesseract_path =
           ((Inl (value_error (not_found_message env (possible_paths env tesseract_path))),
             map probe (possible_paths env tesseract_path)),
            md)"
  using test_paths_rejected[OF assms, of "(False, md)"] by (simp add: OCRProcessor_init_def)

lemma init_constructed:
  assumes "fst (fst (OCRProcessor_init env md tesseract_path)) = Inr self"
  shows "tesseract_cmd (snd (OCRProcessor_init env md tesseract_path))
           \<in> set (possible_paths env tesseract_path) \<and>
         accepts env (tesseract_cmd (snd (OCRProcessor_init env md tesseract_path)))"
proof (cases "list_all (\<lambda>c. \<not> accepts env c) (possible_paths env tesseract_path)")
  case True
  then show ?thesis using assms by (simp add: init_rejected)
next
  case False
  then obtain xs c ys where s: "possible_paths env tesseract_path = xs @ c # ys"
    and r: "list_all (\<lambda>c. \<not> accepts env c) xs" and a: "accepts env c"
    by (rule first_accepted)
  show ?thesis
  proof (cases "encodable c")
    case True
    then show ?thesis using init_accepted[OF s r a True, of md] a s by simp
  next
    case False
    then show ?thesis using init_unprintable[OF s r a False, of md] assms by simp
  qed
qed

text \<open>
  Claim C9. When no candidate passes its test, the constructor raises a \<open>ValueError\<close>
  after having tested every candidate, and its message ends with the list of all the
  candidates, so the \<open>repr\<close> of each candidate occurs in it; the engine reference is left
  as it was. Whenever the constructor returns a processor, the engine reference is one of
  the candidates and passed its test.
\<close>

theorem engine_locator_not_found:
  "(list_all (\<lambda>c. \<not> accepts env c) (possible_paths env tesseract_path) \<longrightarrow>
      OCRProcessor_init env md tesseract_path =
        ((Inl (value_error (not_found_message env (possible_paths env tesseract_path))),
          map probe (possible_paths env tesseract_path)),
         md)) \<and>
   list_all (\<lambda>c. sublist (py_repr env c)
                 (not_found_message env (possible_paths env tesseract_path)))
     (possible_paths env tesseract_path) \<and>
   (fst (fst (OCRProcessor_init env md tesseract_path)) = Inr self \<longrightarrow>
      tesseract_cmd (snd (OCRProcessor_init env md tesseract_path))
        \<in> set (possible_paths env tesseract_path) \<and>
      accepts env (tesseract_cmd (snd (OCRProcessor_init env md tesseract_path))))"
  using init_rejected[of env tesseract_path md] init_constructed[of env md tesseract_path self]
    message_enumerates[of env "possible_paths env tesseract_path"]
  by blast

theorem engine_locator_not_found_witness:
  "list_all (\<lambda>c. \<not> accepts bare_host c) (possible_paths bare_host None) \<and>
   OCRProcessor_init bare_host on_path None =
     ((Inl (value_error (not_found_message bare_host (possible_paths bare_host None))),
       map probe (possible_paths bare_host None)),
      on_path) \<and>
   length (possible_paths bare_host None) = 4 \<and>
   fst (fst (OCRProcessor_init host on_path None)) = Inr \<lparr>config = py ''--oem 3 --psm 6''\<rparr> \<and>
   tesseract_cmd (snd (OCRProcessor_init host on_path None)) = tesseract \<and>
   accepts host tesseract"
proof -
  have a: "list_all (\<lambda>c. \<not> accepts bare_host c) (possible_paths bare_host None)"
    by (simp add: possible_paths_def accepts_def bare_host_def host_def)
  have b: "OCRProcessor_init bare_host on_path None =
     ((Inl (value_error (not_found_message bare_host (possible_paths bare_host None))),
       map probe (possible_paths bare_host None)),
      on_path)"
    using engine_locator_not_found[of bare_host None on_path] a by blast
  have c: "length (possible_paths bare_host None) = 4" by (simp add: possible_paths_def)
  obtain w1 w2 w3 where w: "possible_paths host None = [w1, w2, w3] @ tesseract # []"
    "w1 \<noteq> tesseract" "w2 \<noteq> tesseract" "w3 \<noteq> tesseract"
    using well_known_shape[of host] by auto
  have ws: "w1 = win_path [py ''C:'', py ''Program Files'', py ''Tesseract-OCR'', py ''tesseract.exe'']"
    "w2 = win_path [py ''C:'', py ''Program Files (x86)'', py ''Tesseract-OCR'', py ''tesseract.exe'']"
    "w3 = win_path [py ''C:'', py ''Users'', py ''ann'', py ''AppData'', py ''Local'',
                    py ''Programs'', py ''Tesseract-OCR'', py ''tesseract.exe'']"
    using w(1) by (simp_all add: possible_paths_def host_def)
  have r: "list_all (\<lambda>x. \<not> accepts host x) [w1, w2, w3]"
    using w(2-4) by (simp add: accepts_def) (simp add: ws host_def py_def)
  have t: "accepts host tesseract" by (simp add: accepts_def host_def)
  have i: "OCRProcessor_init host on_path None =
      ((Inr \<lparr>config = py ''--oem 3 --psm 6''\<rparr>, map probe ([w1, w2, w3] @ [tesseract])),
       on_path\<lparr>tesseract_cmd := tesseract\<rparr>)"
    by (rule init_accepted[OF w(1) r t encodable_tesseract])
  then have d: "fst (fst (OCRProcessor_init host on_path None)) =
      Inr \<lparr>config = py ''--oem 3 --psm 6''\<rparr>" by simp
  have e: "tesseract_cmd (snd (OCRProcessor_init host on_path None)) = tesseract"
    using i by simp
  have f: "accepts host (tesseract_cmd (snd (OCRProcessor_init host on_path None)))"
    using engine_locator_not_found[of host None on_path "\<lparr>config = py ''--oem 3 --psm 6''\<rparr>"] d
    by blast
  show ?thesis using a b c d e f by simp
qed

section \<open>Extraction\<close>

subsection \<open>How computations compose\<close>

lemma and_then_Inr:
  "and_then m f = (Inr b, t) \<longleftrightarrow>
     (\<exists>a t1 t2. m = (Inr a, t1) \<and> f a = (Inr b, t2) \<and> t = t1 @ t2)"
  by (cases m; cases "fst m") (auto simp: and_then_def split: prod.splits)

lemma and_then_Inl:
  "and_then m f = (Inl e, t) \<longleftrightarrow>
     m = (Inl e, t) \<or> (\<exists>a t1 t2. m = (Inr a, t1) \<and> f a = (Inl e, t2) \<and> t = t1 @ t2)"
  by (cases m; cases "fst m") (auto simp: and_then_def split: prod.splits)

lemma print_line_Inr: "print_line line = (Inr u, t) \<longleftrightarrow> encodable line \<and> t = []"
  by (auto simp: print_line_def returns_def raise_exn_def)

lemma quiet_and_then:
  assumes "quiet m" and "\<And>a. quiet (f a)"
  shows "quiet (and_then m f)"
proof (cases m)
  case (Pair r t)
  show ?thesis
  proof (cases r)
    case (Inl e)
    then show ?thesis using assms(1) Pair by (simp add: quiet_def and_then_def)
  next
    case (Inr a)
    then show ?thesis using assms(1) assms(2)[of a] Pair
      by (cases "f a") (simp add: quiet_def and_then_def)
  qed
qed

lemma quiet_try_except:
  assumes "quiet m" and "\<And>e. quiet (h e)"
  shows "quiet (try_except m h)"
proof (cases m)
  case (Pair r t)
  show ?thesis
  proof (cases r)
    case (Inl e)
    then show ?thesis using assms(1) assms(2)[of e] Pair
      by (cases "h e") (simp add: quiet_def try_except_def)
  next
    case (Inr a)
    then show ?thesis using assms(1) Pair by (simp add: quiet_def try_except_def)
  qed
qed

lemma quiet_simple:
  "quiet (returns a)" "quiet (raise_exn e)" "quiet (print_line line)"
  "quiet (print_handling e line)" "quiet (r, [])"
  "quiet (effect (PathExists p) r')" "quiet (effect (ImageOpen p) r'')"
  "quiet (effect (RunVersion p n) r''')"
  by (simp_all add: quiet_def returns_def raise_exn_def print_line_def print_handling_def
        effect_def is_recognition_def)

lemma quiet_if: "quiet a \<Longrightarrow> quiet b \<Longrightarrow> quiet (if c then a else b)"
  by simp

lemma quiet_case_option:
  "quiet a \<Longrightarrow> (\<And>p. quiet (f p)) \<Longrightarrow> quiet (case x of None \<Rightarrow> a | Some p \<Rightarrow> f p)"
  by (cases x) simp_all

lemmas quiet_rules =
  quiet_and_then quiet_try_except quiet_simple quiet_if quiet_case_option

lemma preprocess_image_quiet: "quiet (preprocess_image env ip)"
  unfolding preprocess_image_def by (intro quiet_rules)

lemma load_image_quiet: "quiet (load_image env p pre)"
  unfolding load_image_def by (intro quiet_rules preprocess_image_quiet)

lemma prepare_image_quiet: "quiet (prepare_image env md ip pre)"
  unfolding prepare_image_def by (intro quiet_rules load_image_quiet)

lemma test_tesseract_quiet: "quiet (test_tesseract env cmd)"
  unfolding test_tesseract_def by (intro quiet_rules)


subsection \<open>The engine test and what follows it\<close>

lemma test_tesseract_cases:
  "test_tesseract env cmd =
     (if path_exists env cmd \<or> cmd = tesseract then
        (case run_version env cmd 5 of
           Inl x \<Rightarrow>
             (Inl (if fst x = TimeoutExpired
                   then Exn ValueError (py ''Tesseract test timed out'') (Some (raised x))
                   else Exn ValueError (py ''Tesseract validation failed: '' @ py (snd x))
                          (Some (raised x))),
              [PathExists cmd, RunVersion cmd 5])
         | Inr res \<Rightarrow>
             if returncode res \<noteq> 0 then
               (Inl (Exn ValueError
                       (py ''Tesseract validation failed: '' @ py ''Tesseract test failed: '' @
                        py (stderr res))
                       (Some (value_error (py ''Tesseract test failed: '' @ py (stderr res))))),
                [PathExists cmd, RunVersion cmd 5])
             else (Inr (), [PathExists cmd, RunVersion cmd 5]))
      else
        (Inl (Exn ValueError
                (py ''Tesseract validation failed: '' @ py ''Tesseract executable not found at: '' @
                 cmd)
                (Some (value_error (py ''Tesseract executable not found at: '' @ cmd)))),
         [PathExists cmd]))"
  by (simp add: test_tesseract_def try_except_def and_then_def effect_def raise_exn_def
        returns_def lib_def raised_def value_error_def split: sum.splits)

lemma test_tesseract_runnable:
  "fst (test_tesseract env cmd) = Inr () \<longleftrightarrow> engine_runnable env cmd"
  by (auto simp: test_tesseract_cases engine_runnable_def split: sum.splits)

lemma test_tesseract_passed:
  "engine_runnable env cmd \<Longrightarrow>
     test_tesseract env cmd = (Inr (), [PathExists cmd, RunVersion cmd 5])"
  by (auto simp: test_tesseract_cases engine_runnable_def split: sum.splits)

lemma extract_text_cases:
  "extract_text env md self ip pre =
     (case prepare_image env md ip pre of
        (Inl e, t) \<Rightarrow> (Inl (reraised e), t)
      | (Inr img, t) \<Rightarrow>
          (case test_tesseract env (tesseract_cmd md) of
             (Inl e, t2) \<Rightarrow> (Inl (reraised e), t @ t2)
           | (Inr u, t2) \<Rightarrow>
               (case image_to_string env (tesseract_cmd md) img (config self) of
                  Inl x \<Rightarrow>
                    (Inl (reraised (raised x)),
                     t @ t2 @ [ImageToString (tesseract_cmd md) (config self)])
                | Inr extracted \<Rightarrow>
                    (Inr (strip extracted),
                     t @ t2 @ [ImageToString (tesseract_cmd md) (config self)]))))"
  by (simp add: extract_text_handler reraised_def and_then_def effect_def lib_def returns_def
        print_line_ok printable split: sum.splits prod.splits)

lemma prepare_image_reached:
  assumes "prepare_image env md ip pre = (Inr img, t)"
  shows "encodable (tesseract_cmd md)" and "\<exists>p. ip = Some p \<and> p \<noteq> []"
  using assms
  by (auto simp: prepare_image_def and_then_Inr print_line_Inr returns_def raise_exn_def
        value_error_def encodable_append split: option.splits if_splits)

lemma extract_runnable:
  assumes "prepare_image env md ip pre = (Inr img, t)"
    and "engine_runnable env (tesseract_cmd md)"
  shows "snd (extract_text env md self ip pre) =
           t @ [PathExists (tesseract_cmd md), RunVersion (tesseract_cmd md) 5,
                ImageToString (tesseract_cmd md) (config self)]"
  using assms(1) test_tesseract_passed[OF assms(2)]
  by (simp add: extract_text_cases split: sum.splits)

lemma extract_not_runnable:
  assumes "\<not> engine_runnable env (tesseract_cmd md)"
  shows "(\<exists>e. fst (extract_text env md self ip pre) = Inl e) \<and>
         quiet (extract_text env md self ip pre)"
proof -
  obtain r t where p: "prepare_image env md ip pre = (r, t)"
    by (cases "prepare_image env md ip pre")
  have qt: "list_all (\<lambda>ev. \<not> is_recognition ev) t"
    using prepare_image_quiet[of env md ip pre] p by (simp add: quiet_def)
  obtain r2 t2 where v: "test_tesseract env (tesseract_cmd md) = (r2, t2)"
    by (cases "test_tesseract env (tesseract_cmd md)")
  have qt2: "list_all (\<lambda>ev. \<not> is_recognition ev) t2"
    using test_tesseract_quiet[of env "tesseract_cmd md"] v by (simp add: quiet_def)
  have "r2 \<noteq> Inr ()" using test_tesseract_runnable[of env "tesseract_cmd md"] assms v by auto
  then obtain e2 where e2: "r2 = Inl e2" by (cases r2) auto
  show ?thesis
  proof (cases r)
    case (Inl e)
    then show ?thesis using p qt by (simp add: extract_text_cases quiet_def)
  next
    case (Inr img)
    then show ?thesis using p v e2 qt qt2 by (simp add: extract_text_cases quiet_def)
  qed
qed

lemma recognition_needs_runnable:
  assumes "\<not> quiet (extract_text env md self ip pre)"
  shows "engine_runnable env (tesseract_cmd md) \<and>
         (\<exists>t. snd (extract_text env md self ip pre) =
                t @ [PathExists (tesseract_cmd md), RunVersion (tesseract_cmd md) 5,
                     ImageToString (tesseract_cmd md) (config self)] \<and>
              list_all (\<lambda>ev. \<not> is_recognition ev) t)"
proof -
  have run: "engine_runnable env (tesseract_cmd md)"
    using extract_not_runnable[of env md self ip pre] assms by blast
  obtain r t where p: "prepare_image env md ip pre = (r, t)"
    by (cases "prepare_image env md ip pre")
  have qt: "list_all (\<lambda>ev. \<not> is_recognition ev) t"
    using prepare_image_quiet[of env md ip pre] p by (simp add: quiet_def)
  show ?thesis
  proof (cases r)
    case (Inl e)
    then have "quiet (extract_text env md self ip pre)"
      using p qt by (simp add: extract_text_cases quiet_def)
    then show ?thesis using assms by simp
  next
    case (Inr img)
    then have "prepare_image env md ip pre = (Inr img, t)" using p by simp
    then show ?thesis using extract_runnable[OF _ run, of ip pre img t self] qt run by blast
  qed
qed

lemma validation_messages:
  assumes "fst (prepare_image env md ip pre) = Inr img"
  shows "(\<not> path_exists env (tesseract_cmd md) \<and> tesseract_cmd md \<noteq> tesseract \<longrightarrow>
            fst (extract_text env md self ip pre) =
              Inl (Exn ValueError
                     (py ''Text extraction failed: Tesseract validation failed: Tesseract executable not found at: '' @
                      tesseract_cmd md)
                     (Some (Exn ValueError
                              (py ''Tesseract validation failed: Tesseract executable not found at: '' @
                               tesseract_cmd md)
                              (Some (value_error
                                       (py ''Tesseract executable not found at: '' @
                                        tesseract_cmd md)))))))"
    and "((path_exists env (tesseract_cmd md) \<or> tesseract_cmd md = tesseract) \<and>
          run_version env (tesseract_cmd md) 5 = Inl (TimeoutExpired, m) \<longrightarrow>
            fst (extract_text env md self ip pre) =
              Inl (Exn ValueError (py ''Text extraction failed: Tesseract test timed out'')
                     (Some (Exn ValueError (py ''Tesseract test timed out'')
                              (Some (raised (TimeoutExpired, m)))))))"
    and "((path_exists env (tesseract_cmd md) \<or> tesseract_cmd md = tesseract) \<and>
          run_version env (tesseract_cmd md) 5 = Inl (k, m) \<and> k \<noteq> TimeoutExpired \<longrightarrow>
            fst (extract_text env md self ip pre) =
              Inl (Exn ValueError
                     (py ''Text extraction failed: Tesseract validation failed: '' @ py m)
                     (Some (Exn ValueError (py ''Tesseract validation failed: '' @ py m)
                              (Some (raised (k, m)))))))"
    and "((path_exists env (tesseract_cmd md) \<or> tesseract_cmd md = tesseract) \<and>
          run_version env (tesseract_cmd md) 5 = Inr res \<and> returncode res \<noteq> 0 \<longrightarrow>
            fst (extract_text env md self ip pre) =
              Inl (Exn ValueError
                     (py ''Text extraction failed: Tesseract validation failed: Tesseract test failed: '' @
                      py (stderr res))
                     (Some (Exn ValueError
                              (py ''Tesseract validation failed: Tesseract test failed: '' @
                               py (stderr res))
                              (Some (value_error
                                       (py ''Tesseract test failed: '' @ py (stderr res))))))))"
proof -
  obtain t where l: "prepare_image env md ip pre = (Inr img, t)"
    using assms by (cases "prepare_image env md ip pre") simp
  have enc: "encodable (tesseract_cmd md)" by (rule prepare_image_reached(1)[OF l])
  have e: "fst (extract_text env md self ip pre) =
      (case test_tesseract env (tesseract_cmd md) of
         (Inl e, t2) \<Rightarrow> Inl (reraised e)
       | (Inr u, t2) \<Rightarrow>
           (case image_to_string env (tesseract_cmd md) img (config self) of
              Inl x \<Rightarrow> Inl (reraised (raised x))
            | Inr extracted \<Rightarrow> Inr (strip extracted)))"
    using l by (simp add: extract_text_cases split: prod.splits sum.splits)
  have pa: "py u @ py v = py (u @ v)" "py u @ py v @ x = py (u @ v) @ x" for u v x
    by (simp_all add: py_def)
  show "(\<not> path_exists env (tesseract_cmd md) \<and> tesseract_cmd md \<noteq> tesseract \<longrightarrow>
            fst (extract_text env md self ip pre) =
              Inl (Exn ValueError
                     (py ''Text extraction failed: Tesseract validation failed: Tesseract executable not found at: '' @
                      tesseract_cmd md)
                     (Some (Exn ValueError
                              (py ''Tesseract validation failed: Tesseract executable not found at: '' @
                               tesseract_cmd md)
                              (Some (value_error
                                       (py ''Tesseract executable not found at: '' @
                                        tesseract_cmd md)))))))"
    using enc by (simp add: e test_tesseract_cases reraised_def printable pa)
  show "((path_exists env (tesseract_cmd md) \<or> tesseract_cmd md = tesseract) \<and>
          run_version env (tesseract_cmd md) 5 = Inl (TimeoutExpired, m) \<longrightarrow>
            fst (extract_text env md self ip pre) =
              Inl (Exn ValueError (py ''Text extraction failed: Tesseract test timed out'')
                     (Some (Exn ValueError (py ''Tesseract test timed out'')
                              (Some (raised (TimeoutExpired, m)))))))"
    by (auto simp: e test_tesseract_cases reraised_def printable pa)
  show "((path_exists env (tesseract_cmd md) \<or> tesseract_cmd md = tesseract) \<and>
          run_version env (tesseract_cmd md) 5 = Inl (k, m) \<and> k \<noteq> TimeoutExpired \<longrightarrow>
            fst (extract_text env md self ip pre) =
              Inl (Exn ValueError
                     (py ''Text extraction failed: Tesseract validation failed: '' @ py m)
                     (Some (Exn ValueError (py ''Tesseract validation failed: '' @ py m)
                              (Some (raised (k, m)))))))"
    by (auto simp: e test_tesseract_cases reraised_def printable pa)
  show "((path_exists env (tesseract_cmd md) \<or> tesseract_cmd md = tesseract) \<and>
          run_version env (tesseract_cmd md) 5 = Inr res \<and> returncode res \<noteq> 0 \<longrightarrow>
            fst (extract_text env md self ip pre) =
              Inl (Exn ValueError
                     (py ''Text extraction failed: Tesseract validation failed: Tesseract test failed: '' @
                      py (stderr res))
                     (Some (Exn ValueError
                              (py ''Tesseract validation failed: Tesseract test failed: '' @
                               py (stderr res))
                              (Some (value_error
                                       (py ''Tesseract test failed: '' @ py (stderr res))))))))"
    by (auto simp: e test_tesseract_cases reraised_def printable pa)
qed

section \<open>The uniform extraction failure\<close>

subsection \<open>What the exceptions of the stages look like\<close>

lemma fails_and_then:
  assumes "fails_with P m" and "\<And>a. fails_with P (f a)"
  shows "fails_with P (and_then m f)"
proof (cases m)
  case (Pair r t)
  show ?thesis
  proof (cases r)
    case (Inl e)
    then show ?thesis using assms(1) Pair by (simp add: fails_with_def and_then_def)
  next
    case (Inr a)
    then show ?thesis using assms(2)[of a] Pair
      by (cases "f a") (simp add: fails_with_def and_then_def)
  qed
qed

lemma fails_try_except:
  assumes "fails_with P m" and "\<And>e. P e \<Longrightarrow> fails_with Q (h e)"
  shows "fails_with Q (try_except m h)"
proof (cases m)
  case (Pair r t)
  show ?thesis
  proof (cases r)
    case (Inl e)
    then have "P e" using assms(1) Pair by (simp add: fails_with_def)
    then show ?thesis using assms(2)[of e] Pair Inl
      by (cases "h e") (simp add: fails_with_def try_except_def)
  next
    case (Inr a)
    then show ?thesis using Pair by (simp add: fails_with_def try_except_def)
  qed
qed

lemma carries_value_error: "encodable m \<Longrightarrow> carries (value_error m)"
  by (simp add: carries_def value_error_def)

lemma carries_raised: "carries (raised x)"
  by (simp add: carries_def raised_def encodable_py)

lemma carries_unicode_encode_error: "carries (unicode_encode_error line None)"
  by (simp add: carries_def unicode_encode_error_def encodable_codec_message)

lemma fails_simple:
  "fails_with P (returns a)"
  "P e \<Longrightarrow> fails_with P (raise_exn e)"
  "fails_with P (effect ev (Inr x))"
  "fails_with carries (print_line line)"
  "fails_with carries (lib r, [])"
  "fails_with carries (effect ev (lib r))"
  by (auto simp: fails_with_def returns_def raise_exn_def effect_def print_line_def lib_def
        carries_raised carries_unicode_encode_error split: sum.splits)

lemma fails_if: "(c \<Longrightarrow> fails_with P a) \<Longrightarrow> (\<not> c \<Longrightarrow> fails_with P b) \<Longrightarrow> fails_with P (if c then a else b)"
  by simp

lemma fails_case_option:
  "(x = None \<Longrightarrow> fails_with P a) \<Longrightarrow> (\<And>p. x = Some p \<Longrightarrow> fails_with P (f p)) \<Longrightarrow>
     fails_with P (case x of None \<Rightarrow> a | Some p \<Rightarrow> f p)"
  by (cases x) simp_all

lemma fails_handler:
  assumes "carries e" and "encodable line"
  shows "fails_with carries
           (and_then (print_handling e (line @ message e)) (\<lambda>_.
              raise_exn (Exn ValueError (py s @ message e) (Some e))))"
proof -
  have enc: "encodable (message e)" using assms(1) by (simp add: carries_def)
  have suf: "suffix (message (root_cause e)) (message e)" using assms(1) by (simp add: carries_def)
  have p: "print_handling e (line @ message e) = returns ()"
    using enc assms(2) by (simp add: print_handling_ok encodable_append)
  have "carries (Exn ValueError (py s @ message e) (Some e))"
    using enc suf by (simp add: carries_def encodable_append encodable_py suffix_appendI)
  then show ?thesis
    by (simp add: p and_then_returns fails_with_def raise_exn_def)
qed

lemmas fails_rules =
  fails_and_then fails_simple fails_if fails_case_option

lemma preprocess_image_carries:
  assumes "\<And>p. ip = Some p \<Longrightarrow> encodable p"
  shows "fails_with carries (preprocess_image env ip)"
  unfolding preprocess_image_def
proof (rule fails_try_except[where P = carries])
  show "fails_with carries
     (and_then
        (print_line (py ''DEBUG: preprocess_image called with: '' @ repr_of_path env ip)) (\<lambda>_.
      case ip of
        None \<Rightarrow> raise_exn (value_error (py ''Image path is None''))
      | Some p \<Rightarrow>
          and_then (effect (PathExists p) (Inr (path_exists env p))) (\<lambda>found.
            if \<not> found
            then raise_exn (value_error (py ''Image file does not exist: '' @ p))
            else
              and_then (print_line (py ''DEBUG: About to open image'')) (\<lambda>_.
              and_then (effect (ImageOpen p) (lib (image_open env p))) (\<lambda>img.
              and_then (print_line (py ''DEBUG: Opened image: '' @ py (image_repr env img))) (\<lambda>_.
              and_then (print_line (py ''DEBUG: Converting to grayscale'')) (\<lambda>_.
              and_then (lib (convert_L env img), []) (\<lambda>img.
              and_then (print_line (py ''DEBUG: Enhancing contrast'')) (\<lambda>_.
              and_then (lib (enhance_contrast env img 2), []) (\<lambda>img.
              and_then (print_line (py ''DEBUG: Applying sharpen filter'')) (\<lambda>_.
              and_then (lib (filter_sharpen env img), []) (\<lambda>img.
              and_then
                (print_line
                   (py ''DEBUG: Final processed image: '' @ py (image_repr env img))) (\<lambda>_.
                returns img)))))))))))))"
    by (intro fails_rules carries_value_error) (simp_all add: printable assms)
next
  fix e assume "carries e"
  then show "fails_with carries
     (and_then
        (print_handling e (py ''DEBUG: Exception in preprocess_image: '' @ message e)) (\<lambda>_.
      raise_exn (Exn ValueError (py ''Image processing failed: '' @ message e) (Some e))))"
    by (intro fails_handler encodable_py)
qed

lemma load_image_carries:
  assumes "encodable p"
  shows "fails_with carries (load_image env p pre)"
proof -
  have "fails_with carries (preprocess_image env (Some p))"
    using assms by (intro preprocess_image_carries) simp
  then show ?thesis
    unfolding load_image_def
    by (intro fails_rules carries_value_error) (simp_all add: printable assms)
qed

lemma prepare_image_carries:
  assumes "\<And>p. ip = Some p \<Longrightarrow> encodable p"
  shows "fails_with carries (prepare_image env md ip pre)"
  unfolding prepare_image_def
  by (intro fails_rules carries_value_error load_image_carries)
     (simp_all add: printable assms)

lemma test_tesseract_failure:
  assumes "encodable cmd" and "fst (test_tesseract env cmd) = Inl e"
  shows "carries e \<or>
         (kind (root_cause e) = TimeoutExpired \<and>
          (\<exists>m. run_version env cmd 5 = Inl (TimeoutExpired, m) \<and> message (root_cause e) = py m) \<and>
          message e = py ''Tesseract test timed out'')"
  using assms
  by (auto simp: test_tesseract_cases carries_def raised_def value_error_def printable
        suffix_appendI suffix_def
        split: if_splits sum.splits)

lemma extract_text_failure_shape:
  assumes "\<And>p. ip = Some p \<Longrightarrow> encodable p"
    and "fst (extract_text env md self ip pre) = Inl e"
  obtains c where "e = Exn ValueError (py ''Text extraction failed: '' @ message c) (Some c)"
    and "carries c \<or>
         (kind (root_cause c) = TimeoutExpired \<and>
          (\<exists>m. run_version env (tesseract_cmd md) 5 = Inl (TimeoutExpired, m) \<and>
               message (root_cause c) = py m) \<and>
          message c = py ''Tesseract test timed out'')"
proof -
  obtain r t where p: "prepare_image env md ip pre = (r, t)"
    by (cases "prepare_image env md ip pre")
  show ?thesis
  proof (cases r)
    case (Inl c)
    have c: "carries c"
      using prepare_image_carries[of ip env md pre] assms(1) p Inl by (simp add: fails_with_def)
    then have "e = Exn ValueError (py ''Text extraction failed: '' @ message c) (Some c)"
      using assms(2) p Inl by (simp add: extract_text_cases reraised_def carries_def)
    then show ?thesis using c that by blast
  next
    case (Inr img)
    have enc: "encodable (tesseract_cmd md)"
      using prepare_image_reached(1)[of env md ip pre img t] p Inr by simp
    obtain r2 t2 where v: "test_tesseract env (tesseract_cmd md) = (r2, t2)"
      by (cases "test_tesseract env (tesseract_cmd md)")
    show ?thesis
    proof (cases r2)
      case (Inl c)
      have c: "carries c \<or>
         (kind (root_cause c) = TimeoutExpired \<and>
          (\<exists>m. run_version env (tesseract_cmd md) 5 = Inl (TimeoutExpired, m) \<and>
               message (root_cause c) = py m) \<and>
          message c = py ''Tesseract test timed out'')"
        using test_tesseract_failure[OF enc, of env c] v Inl by simp
      then have "encodable (message c)" by (auto simp: carries_def encodable_py)
      then have "e = Exn ValueError (py ''Text extraction failed: '' @ message c) (Some c)"
        using assms(2) p Inr v Inl by (simp add: extract_text_cases reraised_def)
      then show ?thesis using c that by blast
    next
      case u: (Inr u)
      show ?thesis
      proof (cases "image_to_string env (tesseract_cmd md) img (config self)")
        case (Inl x)
        have "encodable (message (raised x))" by (simp add: raised_def encodable_py)
        then have "e = Exn ValueError (py ''Text extraction failed: '' @ message (raised x))
                         (Some (raised x))"
          using assms(2) p Inr v u Inl by (simp add: extract_text_cases reraised_def)
        then show ?thesis using carries_raised[of x] that by blast
      next
        case (Inr extracted)
        then show ?thesis using assms(2) p \<open>r = Inr img\<close> v u by (simp add: extract_text_cases)
      qed
    qed
  qed
qed



section \<open>The engine is tested before every recognition\<close>

text \<open>
  Claim C8. \<open>extract_text\<close> calls the recognition only after having tested the engine
  reference, the one the module holds: when a recognition call is among its events, it is
  the last one, it comes right after the existence test and the version query of the
  engine reference, run with the timeout of 5, and the engine reference is runnable. When
  the engine reference is not runnable, \<open>extract_text\<close> ends with an exception and no
  recognition call is made; for an image path that can be printed the exception is the
  extraction failure. Once the image is loaded and the engine test is reached, the
  exception is the extraction failure whose message says what was wrong: the executable
  was not found, the version query timed out, could not be run, or ended with a non-zero
  status.
\<close>

theorem engine_revalidated:
  "(\<not> quiet (extract_text env md self image_path preprocess) \<longrightarrow>
      engine_runnable env (tesseract_cmd md) \<and>
      (\<exists>t. snd (extract_text env md self image_path preprocess) =
             t @ [PathExists (tesseract_cmd md), RunVersion (tesseract_cmd md) 5,
                  ImageToString (tesseract_cmd md) (config self)] \<and>
           list_all (\<lambda>ev. \<not> is_recognition ev) t)) \<and>
   (\<not> engine_runnable env (tesseract_cmd md) \<longrightarrow>
      (\<exists>e. fst (extract_text env md self image_path preprocess) = Inl e) \<and>
      quiet (extract_text env md self image_path preprocess)) \<and>
   (\<not> engine_runnable env (tesseract_cmd md) \<and>
    (case image_path of None \<Rightarrow> True | Some p \<Rightarrow> encodable p) \<longrightarrow>
      (\<exists>c. fst (extract_text env md self image_path preprocess) =
             Inl (Exn ValueError (py ''Text extraction failed: '' @ message c) (Some c)))) \<and>
   (fst (prepare_image env md image_path preprocess) = Inr img \<longrightarrow>
      (\<not> path_exists env (tesseract_cmd md) \<and> tesseract_cmd md \<noteq> tesseract \<longrightarrow>
         fst (extract_text env md self image_path preprocess) =
           Inl (Exn ValueError
                  (py ''Text extraction failed: Tesseract validation failed: Tesseract executable not found at: '' @
                   tesseract_cmd md)
                  (Some (Exn ValueError
                           (py ''Tesseract validation failed: Tesseract executable not found at: '' @
                            tesseract_cmd md)
                           (Some (value_error
                                    (py ''Tesseract executable not found at: '' @
                                     tesseract_cmd md))))))) \<and>
      ((path_exists env (tesseract_cmd md) \<or> tesseract_cmd md = tesseract) \<and>
       run_version env (tesseract_cmd md) 5 = Inl (TimeoutExpired, m) \<longrightarrow>
         fst (extract_text env md self image_path preprocess) =
           Inl (Exn ValueError (py ''Text extraction failed: Tesseract test timed out'')
                  (Some (Exn ValueError (py ''Tesseract test timed out'')
                           (Some (raised (TimeoutExpired, m))))))) \<and>
      ((path_exists env (tesseract_cmd md) \<or> tesseract_cmd md = tesseract) \<and>
       run_version env (tesseract_cmd md) 5 = Inl (k, m) \<and> k \<noteq> TimeoutExpired \<longrightarrow>
         fst (extract_text env md self image_path preprocess) =
           Inl (Exn ValueError
                  (py ''Text extraction failed: Tesseract validation failed: '' @ py m)
                  (Some (Exn ValueError (py ''Tesseract validation failed: '' @ py m)
                           (Some (raised (k, m))))))) \<and>
      ((path_exists env (tesseract_cmd md) \<or> tesseract_cmd md = tesseract) \<and>
       run_version env (tesseract_cmd md) 5 = Inr res \<and> returncode res \<noteq> 0 \<longrightarrow>
         fst (extract_text env md self image_path preprocess) =
           Inl (Exn ValueError
                  (py ''Text extraction failed: Tesseract validation failed: Tesseract test failed: '' @
                   py (stderr res))
                  (Some (Exn ValueError
                           (py ''Tesseract validation failed: Tesseract test failed: '' @
                            py (stderr res))
                           (Some (value_error
                                    (py ''Tesseract test failed: '' @ py (stderr res)))))))))"
proof -
  have 3: "\<exists>c. fst (extract_text env md self image_path preprocess) =
             Inl (Exn ValueError (py ''Text extraction failed: '' @ message c) (Some c))"
    if nr: "\<not> engine_runnable env (tesseract_cmd md)"
      and enc: "case image_path of None \<Rightarrow> True | Some p \<Rightarrow> encodable p"
  proof -
    obtain e where e: "fst (extract_text env md self image_path preprocess) = Inl e"
      using extract_not_runnable[OF nr, of self image_path preprocess] by blast
    have "encodable p" if "image_path = Some p" for p using enc that by simp
    then obtain c where
      "e = Exn ValueError (py ''Text extraction failed: '' @ message c) (Some c)"
      using extract_text_failure_shape[of image_path env md self preprocess e] e by blast
    then show ?thesis using e by blast
  qed
  show ?thesis
    using recognition_needs_runnable[of env md self image_path preprocess]
      extract_not_runnable[of env md self image_path preprocess] 3
      validation_messages(1)[of env md image_path preprocess img self]
      validation_messages(2)[of env md image_path preprocess img m self]
      validation_messages(3)[of env md image_path preprocess img k m self]
      validation_messages(4)[of env md image_path preprocess img res self]
    by blast
qed

theorem engine_revalidated_witness:
  "\<not> quiet (extract_text host on_path ocr_on_path (Some (py ''scan.PNG'')) True) \<and>
   engine_runnable host (tesseract_cmd on_path) \<and>
   \<not> engine_runnable slow_host (tesseract_cmd on_path) \<and>
   quiet (extract_text slow_host on_path ocr_on_path (Some (py ''scan.PNG'')) True) \<and>
   fst (extract_text slow_host on_path ocr_on_path (Some (py ''scan.PNG'')) True) =
     Inl (Exn ValueError (py ''Text extraction failed: Tesseract test timed out'')
            (Some (Exn ValueError (py ''Tesseract test timed out'')
                     (Some (raised (TimeoutExpired, ''Command timed out after 5 seconds''))))))"
proof -
  have a: "\<not> quiet (extract_text host on_path ocr_on_path (Some (py ''scan.PNG'')) True)"
    by (simp add: extract_scan quiet_def is_recognition_def)
  have b: "engine_runnable host (tesseract_cmd on_path)"
    using engine_revalidated[of host on_path ocr_on_path "Some (py ''scan.PNG'')" True] a
    by blast
  have d: "\<not> engine_runnable slow_host (tesseract_cmd on_path)"
    by (simp add: engine_runnable_def slow_host_def host_def)
  have e: "quiet (extract_text slow_host on_path ocr_on_path (Some (py ''scan.PNG'')) True)"
    using engine_revalidated[of slow_host on_path ocr_on_path "Some (py ''scan.PNG'')" True] d
    by blast
  have f: "fst (prepare_image slow_host on_path (Some (py ''scan.PNG'')) True) = Inr 4"
    by (simp add: prepare_scan_slow)
  have g: "tesseract_cmd on_path = tesseract"
    "run_version slow_host (tesseract_cmd on_path) 5 =
       Inl (TimeoutExpired, ''Command timed out after 5 seconds'')"
    by (simp_all add: slow_host_def host_def on_path_def)
  have h: "fst (extract_text slow_host on_path ocr_on_path (Some (py ''scan.PNG'')) True) =
     Inl (Exn ValueError (py ''Text extraction failed: Tesseract test timed out'')
            (Some (Exn ValueError (py ''Tesseract test timed out'')
                     (Some (raised (TimeoutExpired, ''Command timed out after 5 seconds''))))))"
    using engine_revalidated[of slow_host on_path ocr_on_path "Some (py ''scan.PNG'')" True 4
        "''Command timed out after 5 seconds''"] f g
    by blast
  show ?thesis using a b d e h by blast
qed


subsection \<open>The failure that leaves \<open>extract_text\<close>\<close>











section \<open>Saving a text and reading it back\<close>

subsection \<open>Decoding what was encoded\<close>













subsection \<open>The newlines\<close>




subsection \<open>The round trip\<close>






end
